theory Spec2Isabelle
  imports Main "HOL-Library.Word" "HOL-Library.Monad_Syntax"
begin

unbundle bit_operations_syntax

section \<open>Machine types and memory representation\<close>

text \<open>
  The client is one C translation unit (\<^verbatim>\<open>src/main.c\<close>), written in GNU C for a
  little-endian LP64 host: it declares byte order \<^verbatim>\<open>'l'\<close> in the handshake and writes
  its packed structs and \<^verbatim>\<open>uint32_t\<close> arrays to the socket straight from memory. Fixed
  width integers are words; an object in memory is the list of its bytes in little-endian
  order.
\<close>

type_synonym u8 = "8 word"
type_synonym u16 = "16 word"
type_synonym u32 = "32 word"

definition le16 :: "u16 \<Rightarrow> u8 list" where
  "le16 v = [ucast v, ucast (drop_bit 8 v)]"

definition le32 :: "u32 \<Rightarrow> u8 list" where
  "le32 v = [ucast v, ucast (drop_bit 8 v), ucast (drop_bit 16 v), ucast (drop_bit 24 v)]"

text \<open>
  Reading a field of a packed struct that overlays a byte buffer: the bytes at the field's
  offset, or \<open>None\<close> when the field does not lie inside the buffer (an out-of-bounds
  read in C).
\<close>

definition rd8 :: "u8 list \<Rightarrow> nat \<Rightarrow> u8 option" where
  "rd8 m off = (if off + 1 \<le> length m then Some (m ! off) else None)"

definition rd16 :: "u8 list \<Rightarrow> nat \<Rightarrow> u16 option" where
  "rd16 m off =
     (if off + 2 \<le> length m
      then Some (ucast (m ! off) OR push_bit 8 (ucast (m ! (off + 1))))
      else None)"

definition rd32 :: "u8 list \<Rightarrow> nat \<Rightarrow> u32 option" where
  "rd32 m off =
     (if off + 4 \<le> length m
      then Some (ucast (m ! off) OR push_bit 8 (ucast (m ! (off + 1)))
                 OR push_bit 16 (ucast (m ! (off + 2))) OR push_bit 24 (ucast (m ! (off + 3))))
      else None)"

text \<open>
  A local \<^verbatim>\<open>uint32_t packet[n]\<close> starts with indeterminate contents: each word is
  \<open>None\<close> until it is stored to. A store outside the array is \<open>None\<close> for the
  whole array (undefined behaviour); so is a read outside a value list.
\<close>

type_synonym packet = "u32 option list"

definition store :: "packet \<Rightarrow> nat \<Rightarrow> u32 \<Rightarrow> packet option" where
  "store p i v = (if i < length p then Some (p[i := Some v]) else None)"

definition load :: "u32 list \<Rightarrow> nat \<Rightarrow> u32 option" where
  "load xs i = (if i < length xs then Some (xs ! i) else None)"

definition mem_bytes :: "packet \<Rightarrow> u8 option list" where
  "mem_bytes p =
     concat (map (\<lambda>w. case w of None \<Rightarrow> replicate 4 None | Some v \<Rightarrow> map Some (le32 v)) p)"

section \<open>X11 protocol definitions\<close>

definition X11_DEFAULT_BORDER :: u32 where "X11_DEFAULT_BORDER = 0"
definition X11_DEFAULT_GROUP :: u32 where "X11_DEFAULT_GROUP = 0"
definition X11_EXPOSURES_NOT_ALLOWED :: u32 where "X11_EXPOSURES_NOT_ALLOWED = 0"
definition X11_GC_GRAPHICS_EXPOSURES :: u32 where "X11_GC_GRAPHICS_EXPOSURES = push_bit 16 1"
definition X11_OPCODE_CREATE_WINDOW :: u32 where "X11_OPCODE_CREATE_WINDOW = 1"
definition X11_OPCODE_MAP_WINDOW :: u32 where "X11_OPCODE_MAP_WINDOW = 8"
definition X11_OPCODE_CREATE_GC :: u32 where "X11_OPCODE_CREATE_GC = 16"
definition X11_CW_BACK_PIXEL :: u32 where "X11_CW_BACK_PIXEL = push_bit 1 1"
definition X11_CW_EVENT_MASK :: u32 where "X11_CW_EVENT_MASK = push_bit 11 1"
definition X11_EVENT_MASK_KEY_PRESS :: u32 where "X11_EVENT_MASK_KEY_PRESS = 1"
definition X11_EVENT_MASK_POINTER_MOTION :: u32 where "X11_EVENT_MASK_POINTER_MOTION = push_bit 6 1"

text \<open>\<^verbatim>\<open>connection_request_t\<close>, packed: 1 + 1 + 2 + 2 + 2 + 2 + 2 = 12 bytes.\<close>

record connection_request_t =
  order :: u8
  pad1 :: u8
  major_version :: u16
  minor_version :: u16
  auth_proto_name_len :: u16
  auth_proto_data_len :: u16
  pad2 :: u16

definition connection_request_bytes :: "connection_request_t \<Rightarrow> u8 list" where
  "connection_request_bytes r =
     [order r, pad1 r] @ le16 (major_version r) @ le16 (minor_version r)
     @ le16 (auth_proto_name_len r) @ le16 (auth_proto_data_len r) @ le16 (pad2 r)"

definition sizeof_connection_request_t :: nat where
  "sizeof_connection_request_t = 1 + 1 + 2 + 2 + 2 + 2 + 2"

text \<open>\<^verbatim>\<open>connection_reply_header_t\<close>, packed: 1 + 1 + 2 + 2 + 2 = 8 bytes.\<close>

record connection_reply_header_t =
  success :: u8
  pad :: u8
  reply_major_version :: u16
  reply_minor_version :: u16
  len :: u16

definition sizeof_connection_reply_header_t :: nat where
  "sizeof_connection_reply_header_t = 1 + 1 + 2 + 2 + 2"

definition connection_reply_header_of :: "u8 list \<Rightarrow> connection_reply_header_t" where
  "connection_reply_header_of m =
     \<lparr>success = m ! 0, pad = m ! 1,
      reply_major_version = the (rd16 m 2), reply_minor_version = the (rd16 m 4),
      len = the (rd16 m 6)\<rparr>"

text \<open>
  \<^verbatim>\<open>connection_reply_success_body_t\<close>, packed: the fields the client reads, by their
  byte offsets. \<^verbatim>\<open>release\<close> is at 0, \<^verbatim>\<open>id_base\<close> at 4, \<^verbatim>\<open>id_mask\<close> at 8,
  \<^verbatim>\<open>motion_buffer_size\<close> at 12, \<^verbatim>\<open>vendor_len\<close> at 16, \<^verbatim>\<open>request_max\<close> at 18,
  \<^verbatim>\<open>num_screens\<close> at 20, \<^verbatim>\<open>num_pixmap_formats\<close> at 21, six more bytes up to 28,
  \<^verbatim>\<open>pad\<close> at 28 and \<^verbatim>\<open>vendor_string\<close> at 32.
\<close>

definition id_base :: "u8 list \<Rightarrow> u32 option" where "id_base body = rd32 body 4"
definition vendor_len :: "u8 list \<Rightarrow> u16 option" where "vendor_len body = rd16 body 16"
definition num_screens :: "u8 list \<Rightarrow> u8 option" where "num_screens body = rd8 body 20"
definition num_pixmap_formats :: "u8 list \<Rightarrow> u8 option" where
  "num_pixmap_formats body = rd8 body 21"
definition vendor_string_offset :: nat where "vendor_string_offset = 4 * 4 + 2 * 2 + 8 + 4"

text \<open>\<^verbatim>\<open>pixmap_format_t\<close>, packed: 1 + 1 + 1 + 5 = 8 bytes.\<close>

definition sizeof_pixmap_format_t :: nat where "sizeof_pixmap_format_t = 1 + 1 + 1 + 5"

text \<open>
  \<^verbatim>\<open>screen_t\<close>, packed, 40 bytes: \<^verbatim>\<open>root_id\<close> at 0, then four more 32-bit and six
  16-bit fields, \<^verbatim>\<open>root_visual_id\<close> at 5 * 4 + 6 * 2 = 32.
\<close>

definition root_id :: "u8 list \<Rightarrow> nat \<Rightarrow> u32 option" where
  "root_id body scr = rd32 body scr"

definition root_visual_id :: "u8 list \<Rightarrow> nat \<Rightarrow> u32 option" where
  "root_visual_id body scr = rd32 body (scr + 32)"

section \<open>Session state\<close>

text \<open>
  \<^verbatim>\<open>state_t\<close>. The reply body is the one heap block the program allocates; it is
  \<open>None\<close> while the pointer is null. \<^verbatim>\<open>pixmap_formats\<close> and \<^verbatim>\<open>screens\<close> point
  into that block: a pointer is null or a byte offset from the start of the block.
\<close>

datatype ptr = NULL | Body nat

record state_t =
  socket_fd :: int
  connection_reply_header :: connection_reply_header_t
  connection_reply_success_body :: "u8 list option"
  pixmap_formats :: ptr
  screens :: ptr
  next_resource_id :: u32
  graphics_context_id :: u32
  window_id :: u32

text \<open>\<^verbatim>\<open>state->screens[0].root_id\<close> and \<^verbatim>\<open>state.screens[0].root_visual_id\<close>.\<close>

definition screens_0_root_id :: "state_t \<Rightarrow> u32 option" where
  "screens_0_root_id state =
     (case (connection_reply_success_body state, screens state) of
        (Some body, Body scr) \<Rightarrow> root_id body scr
      | _ \<Rightarrow> None)"

definition screens_0_root_visual_id :: "state_t \<Rightarrow> u32 option" where
  "screens_0_root_visual_id state =
     (case (connection_reply_success_body state, screens state) of
        (Some body, Body scr) \<Rightarrow> root_visual_id body scr
      | _ \<Rightarrow> None)"

section \<open>The outside world\<close>

text \<open>
  What the operating system and the server answer is fixed by an environment: the results
  of \<^verbatim>\<open>socket\<close> and \<^verbatim>\<open>connect\<close>, the bytes \<^verbatim>\<open>fread\<close> delivers from the credential
  file (\<open>None\<close> when \<^verbatim>\<open>fopen\<close> fails), the value the \<open>k\<close>-th transport call returns
  when it is a \<^verbatim>\<open>write\<close> of \<open>n\<close> bytes, and the data it has ready when it is a
  \<^verbatim>\<open>recvfrom\<close> (\<open>None\<close>: the call fails with -1). The world records what the
  process did: every transport call in order, the lines printed to the error stream, and
  the seconds slept.
\<close>

record env =
  socket_ret :: int
  connect_ret :: int
  xauth_file :: "u8 list option"
  write_ret :: "nat \<Rightarrow> nat \<Rightarrow> int"
  recv_data :: "nat \<Rightarrow> u8 list option"

datatype syscall =
    Write int "u8 list" int
  | Recvfrom int nat int "u8 list"

record world =
  trace :: "syscall list"
  err :: "string list"
  slept :: nat

text \<open>
  A run ends in undefined behaviour, in \<^verbatim>\<open>exit\<close> with a status, in the idle loop of
  \<^verbatim>\<open>main\<close>, or it returns a value. Each carries the world as it is at that point.
\<close>

datatype 'a outcome =
    Undefined world
  | Exited world int
  | Idling state_t world
  | Returned 'a world

fun world_of :: "'a outcome \<Rightarrow> world" where
  "world_of (Undefined w) = w"
| "world_of (Exited w c) = w"
| "world_of (Idling s w) = w"
| "world_of (Returned x w) = w"

fun and_then :: "'a outcome \<Rightarrow> ('a \<Rightarrow> world \<Rightarrow> 'b outcome) \<Rightarrow> 'b outcome" where
  "and_then (Undefined w) f = Undefined w"
| "and_then (Exited w c) f = Exited w c"
| "and_then (Idling s w) f = Idling s w"
| "and_then (Returned x w) f = f x w"

text \<open>\<^verbatim>\<open>FATAL_ERROR(msg)\<close>: one line on the error stream, then \<^verbatim>\<open>exit(-1)\<close>.\<close>

definition FATAL_ERROR :: "world \<Rightarrow> string \<Rightarrow> 'a outcome" where
  "FATAL_ERROR w msg = Exited (w\<lparr>err := err w @ [msg]\<rparr>) (- 1)"

text \<open>The status a parent process sees: the low eight bits of the argument of exit.\<close>

definition exit_status :: "int \<Rightarrow> int" where
  "exit_status c = c mod 256"

section \<open>Transport I/O primitives\<close>

text \<open>
  The comparison \<^verbatim>\<open>write(...) != count\<close> is between an \<^verbatim>\<open>ssize_t\<close> and a
  \<^verbatim>\<open>size_t\<close>: the signed result is converted to 64 bits unsigned first.
\<close>

definition size_t_of_ssize_t :: "int \<Rightarrow> nat" where
  "size_t_of_ssize_t r = nat (r mod 2 ^ 64)"

text \<open>
  \<^verbatim>\<open>write\<close> reads \<open>count\<close> bytes from the buffer; the model stops as undefined
  when these are not all inside the object or not all determinate.
\<close>

definition fatal_write :: "env \<Rightarrow> world \<Rightarrow> int \<Rightarrow> u8 option list \<Rightarrow> nat \<Rightarrow> unit outcome" where
  "fatal_write e w fd buf count =
     (if length buf < count then Undefined w
      else case those (take count buf) of
        None \<Rightarrow> Undefined w
      | Some bytes \<Rightarrow>
          let r = write_ret e (length (trace w)) count;
              w = w\<lparr>trace := trace w @ [Write fd bytes r]\<rparr>
          in if size_t_of_ssize_t r \<noteq> count then FATAL_ERROR w ''Failed to write.''
             else Returned () w)"

text \<open>
  \<^verbatim>\<open>recvfrom\<close> stores at most \<open>count\<close> of the bytes that are ready and returns how
  many, or returns -1. \<^verbatim>\<open>fatal_read\<close> hands back the bytes now in the buffer.
\<close>

definition recvfrom :: "env \<Rightarrow> nat \<Rightarrow> nat \<Rightarrow> int \<times> u8 list" where
  "recvfrom e k count =
     (case recv_data e k of
        None \<Rightarrow> (- 1, [])
      | Some d \<Rightarrow> (int (length (take count d)), take count d))"

definition fatal_read :: "env \<Rightarrow> world \<Rightarrow> int \<Rightarrow> nat \<Rightarrow> u8 list outcome" where
  "fatal_read e w fd count =
     (let (r, bytes) = recvfrom e (length (trace w)) count;
          w = w\<lparr>trace := trace w @ [Recvfrom fd count r bytes]\<rparr>
      in if size_t_of_ssize_t r \<noteq> count then FATAL_ERROR w ''Failed to read.''
         else Returned bytes w)"

section \<open>Resource ID allocator\<close>

definition generate_id :: "state_t \<Rightarrow> u32 \<times> state_t" where
  "generate_id state =
     (next_resource_id state, state\<lparr>next_resource_id := next_resource_id state + 1\<rparr>)"

text \<open>\<open>n\<close> consecutive calls of \<^verbatim>\<open>generate_id\<close>: the values returned, in order.\<close>

fun generate_ids :: "nat \<Rightarrow> state_t \<Rightarrow> u32 list \<times> state_t" where
  "generate_ids 0 state = ([], state)"
| "generate_ids (Suc n) state =
     (let (v, state) = generate_id state;
          (vs, state) = generate_ids n state
      in (v # vs, state))"

section \<open>Bit count\<close>

text \<open>
  \<^verbatim>\<open>popcnt\<close>: the \<^verbatim>\<open>while (value)\<close> loop. \<^verbatim>\<open>count\<close> is an \<^verbatim>\<open>int\<close> that the
  function returns as \<^verbatim>\<open>unsigned\<close>; adding the \<^verbatim>\<open>uint32_t\<close> \<^verbatim>\<open>value & 1\<close> to it is
  arithmetic modulo \<open>2 ^ 32\<close>.
\<close>

function popcnt_loop :: "u32 \<Rightarrow> u32 \<Rightarrow> u32" where
  "popcnt_loop count v =
     (if v \<noteq> 0 then popcnt_loop (count + (v AND 1)) (drop_bit 1 v) else count)"
  by pat_completeness auto
termination
proof (relation "measure (\<lambda>(count, v). unat v)")
  show "wf (measure (\<lambda>(count, v). unat v))"
    by simp
next
  fix count v :: u32
  assume nz: "v \<noteq> 0"
  have "unat (drop_bit 1 v) = unat v div 2"
    by (simp add: drop_bit_eq_div unat_div)
  moreover have "0 < unat v"
    using nz by (simp add: unat_gt_0)
  ultimately show "((count + (v AND 1), drop_bit 1 v), (count, v)) \<in> measure (\<lambda>(count, v). unat v)"
    by simp
qed

declare popcnt_loop.simps [simp del]

definition popcnt :: "u32 \<Rightarrow> u32" where
  "popcnt v = popcnt_loop 0 v"

text \<open>The number of set bits of a 32-bit value, as the specification speaks of it.\<close>

definition popcount :: "u32 \<Rightarrow> nat" where
  "popcount v = length (filter (bit v) [0..<32])"

section \<open>Graphics context initializer\<close>

text \<open>
  The loop \<^verbatim>\<open>for (int i = 0; i < flag_count; ++i) packet[base + i] = value_list[i]\<close>
  of \<^verbatim>\<open>init_gc\<close> (\<open>base\<close> 4) and \<^verbatim>\<open>init_window\<close> (\<open>base\<close> 8).
\<close>

function copy_values :: "nat \<Rightarrow> packet \<Rightarrow> u32 list \<Rightarrow> nat \<Rightarrow> nat \<Rightarrow> packet option" where
  "copy_values base packet value_list flag_count i =
     (if i < flag_count then
        do {
          v \<leftarrow> load value_list i;
          packet \<leftarrow> store packet (base + i) v;
          copy_values base packet value_list flag_count (i + 1)
        }
      else Some packet)"
  by pat_completeness auto
termination
  by (relation "measure (\<lambda>(base, packet, value_list, flag_count, i). flag_count - i)") auto

declare copy_values.simps [simp del]

text \<open>
  Lines 212 to 221 of \<^verbatim>\<open>init_gc\<close>: the request length and the scratch buffer after the
  stores. In GNU C \<^verbatim>\<open>len<<16\<close> on the promoted \<^verbatim>\<open>int\<close> shifts the bit pattern.
\<close>

definition init_gc_packet :: "state_t \<Rightarrow> u32 \<Rightarrow> u32 list \<Rightarrow> (u16 \<times> packet) option" where
  "init_gc_packet state value_mask value_list =
     do {
       let flag_count = (ucast (popcnt value_mask) :: u16);
       let len = 4 + flag_count;
       let packet = replicate (4 + 32) None;
       packet \<leftarrow> store packet 0 (X11_OPCODE_CREATE_GC OR push_bit 16 (ucast len));
       packet \<leftarrow> store packet 1 (graphics_context_id state);
       root \<leftarrow> screens_0_root_id state;
       packet \<leftarrow> store packet 2 root;
       packet \<leftarrow> store packet 3 value_mask;
       packet \<leftarrow> copy_values 4 packet value_list (unat flag_count) 0;
       Some (len, packet)
     }"

definition init_gc :: "env \<Rightarrow> world \<Rightarrow> state_t \<Rightarrow> u32 \<Rightarrow> u32 list \<Rightarrow> state_t outcome" where
  "init_gc e w state value_mask value_list =
     (let (new_id, state) = generate_id state;
          state = state\<lparr>graphics_context_id := new_id\<rparr>
      in case init_gc_packet state value_mask value_list of
           None \<Rightarrow> Undefined w
         | Some (len_words, packet) \<Rightarrow>
             and_then (fatal_write e w (socket_fd state) (mem_bytes packet) (unat len_words * 4))
               (\<lambda>_ w. Returned state w))"

section \<open>Window initializer and mapper\<close>

text \<open>Lines 232 to 246 of \<^verbatim>\<open>init_window\<close>.\<close>

definition init_window_packet ::
  "state_t \<Rightarrow> u16 \<Rightarrow> u16 \<Rightarrow> u16 \<Rightarrow> u16 \<Rightarrow> u32 \<Rightarrow> u32 \<Rightarrow> u32 \<Rightarrow> u32 list \<Rightarrow> (u16 \<times> packet) option"
where
  "init_window_packet state x y w h window_parent visual value_mask value_list =
     do {
       let flag_count = (ucast (popcnt value_mask) :: u16);
       let len = 8 + flag_count;
       let packet = replicate (8 + 32) None;
       packet \<leftarrow> store packet 0 (X11_OPCODE_CREATE_WINDOW OR push_bit 16 (ucast len));
       packet \<leftarrow> store packet 1 (window_id state);
       packet \<leftarrow> store packet 2 window_parent;
       packet \<leftarrow> store packet 3 (ucast x OR push_bit 16 (ucast y));
       packet \<leftarrow> store packet 4 (ucast w OR push_bit 16 (ucast h));
       packet \<leftarrow> store packet 5 (push_bit 16 X11_DEFAULT_BORDER OR X11_DEFAULT_GROUP);
       packet \<leftarrow> store packet 6 visual;
       packet \<leftarrow> store packet 7 value_mask;
       packet \<leftarrow> copy_values 8 packet value_list (unat flag_count) 0;
       Some (len, packet)
     }"

definition init_window ::
  "env \<Rightarrow> world \<Rightarrow> state_t \<Rightarrow> u16 \<Rightarrow> u16 \<Rightarrow> u16 \<Rightarrow> u16 \<Rightarrow> u32 \<Rightarrow> u32 \<Rightarrow> u32 \<Rightarrow> u32 list
   \<Rightarrow> state_t outcome"
where
  "init_window e wo state x y w h window_parent visual value_mask value_list =
     (let (new_id, state) = generate_id state;
          state = state\<lparr>window_id := new_id\<rparr>
      in case init_window_packet state x y w h window_parent visual value_mask value_list of
           None \<Rightarrow> Undefined wo
         | Some (len_words, packet) \<Rightarrow>
             and_then (fatal_write e wo (socket_fd state) (mem_bytes packet) (unat len_words * 4))
               (\<lambda>_ wo. Returned state wo))"

definition map_window_packet :: "state_t \<Rightarrow> packet option" where
  "map_window_packet state =
     do {
       let len = (2 :: u32);
       let packet = replicate (unat len) None;
       packet \<leftarrow> store packet 0 (X11_OPCODE_MAP_WINDOW OR push_bit 16 len);
       packet \<leftarrow> store packet 1 (window_id state);
       Some packet
     }"

definition map_window :: "env \<Rightarrow> world \<Rightarrow> state_t \<Rightarrow> state_t outcome" where
  "map_window e w state =
     (case map_window_packet state of
        None \<Rightarrow> Undefined w
      | Some packet \<Rightarrow>
          and_then (fatal_write e w (socket_fd state) (mem_bytes packet) 8)
            (\<lambda>_ w. Returned state w))"

section \<open>Connection bootstrap\<close>

text \<open>
  The literal \<^verbatim>\<open>"MIT-MAGIC-COOKIE-1\0\0"\<close>: 18 characters, the two written null bytes
  and the terminator, 21 bytes of which 20 are sent.
\<close>

definition auth_name_literal :: "u8 list" where
  "auth_name_literal = map of_char ''MIT-MAGIC-COOKIE-1'' @ [0, 0] @ [0]"

text \<open>
  \<^verbatim>\<open>x11_init\<close>. \<^verbatim>\<open>fread\<close> is asked for at most 4096 bytes; the rest of
  \<^verbatim>\<open>xauth_cookie\<close> stays indeterminate. \<^verbatim>\<open>xauth_len\<close> is a \<^verbatim>\<open>size_t\<close>, so the test
  \<^verbatim>\<open>xauth_len < 0\<close> compares a natural number. \<^verbatim>\<open>xauth_cookie + xauth_len - 16\<close>
  points before the array when fewer than 16 bytes were read: undefined behaviour.
  \<^verbatim>\<open>malloc\<close> is taken to succeed (it is asked for at most 262140 bytes).
\<close>

definition x11_init :: "env \<Rightarrow> world \<Rightarrow> state_t \<Rightarrow> state_t outcome" where
  "x11_init e w state =
     (let state = state\<lparr>socket_fd := socket_ret e\<rparr> in
      if socket_fd state < 0 then FATAL_ERROR w ''Create socket failed''
      else if connect_ret e < 0 then FATAL_ERROR w ''Couldn't connect''
      else case xauth_file e of
        None \<Rightarrow> FATAL_ERROR w ''Couldn't open .Xauthority.''
      | Some contents \<Rightarrow>
          let xauth_len = length (take 4096 contents);
              xauth_cookie = map Some (take 4096 contents) @ replicate (4096 - xauth_len) None
          in
          if int xauth_len < 0 then FATAL_ERROR w ''Couldn't read from .Xauthority.''
          else
            let request = \<lparr>order = of_char CHR ''l'', pad1 = 0, major_version = 11,
                           minor_version = 0, auth_proto_name_len = 18,
                           auth_proto_data_len = 16, pad2 = 0\<rparr>
            in
            and_then (fatal_write e w (socket_fd state)
                        (map Some (connection_request_bytes request)) sizeof_connection_request_t)
            (\<lambda>_ w.
            and_then (fatal_write e w (socket_fd state) (map Some auth_name_literal) 20)
            (\<lambda>_ w.
            if xauth_len < 16 then Undefined w
            else
            and_then (fatal_write e w (socket_fd state) (drop (xauth_len - 16) xauth_cookie) 16)
            (\<lambda>_ w.
            and_then (fatal_read e w (socket_fd state) sizeof_connection_reply_header_t)
            (\<lambda>header w.
            let state = state\<lparr>connection_reply_header := connection_reply_header_of header\<rparr> in
            if success (connection_reply_header state) = 0
            then FATAL_ERROR w ''Connection reply indicated failure.''
            else
            and_then (fatal_read e w (socket_fd state)
                        (unat (len (connection_reply_header state)) * 4))
            (\<lambda>body w.
            let state = state\<lparr>connection_reply_success_body := Some body\<rparr> in
            case vendor_len body of
              None \<Rightarrow> Undefined w
            | Some vl \<Rightarrow>
            (let state = state\<lparr>pixmap_formats := Body (vendor_string_offset + unat vl)\<rparr> in
            case num_pixmap_formats body of
              None \<Rightarrow> Undefined w
            | Some npf \<Rightarrow>
            (let state = state\<lparr>screens :=
                          Body (vendor_string_offset + unat vl + unat npf * sizeof_pixmap_format_t)\<rparr>
            in
            case id_base body of
              None \<Rightarrow> Undefined w
            | Some base \<Rightarrow> Returned (state\<lparr>next_resource_id := base\<rparr>) w))))))))"

section \<open>Driver\<close>

text \<open>\<^verbatim>\<open>state_t state = {0}\<close>.\<close>

definition state_zero :: state_t where
  "state_zero =
     \<lparr>socket_fd = 0,
      connection_reply_header =
        \<lparr>success = 0, pad = 0, reply_major_version = 0, reply_minor_version = 0, len = 0\<rparr>,
      connection_reply_success_body = None,
      pixmap_formats = NULL, screens = NULL,
      next_resource_id = 0, graphics_context_id = 0, window_id = 0\<rparr>"

text \<open>
  \<^verbatim>\<open>while (1) sleep(1)\<close> never ends; \<open>idle n\<close> is the world after \<open>n\<close> rounds of
  it, for every \<open>n\<close>.
\<close>

primrec idle :: "nat \<Rightarrow> world \<Rightarrow> world" where
  "idle 0 w = w"
| "idle (Suc n) w = idle n (w\<lparr>slept := slept w + 1\<rparr>)"

text \<open>\<^verbatim>\<open>main\<close>, observed until the idle loop has gone round \<open>n\<close> times.\<close>

definition main :: "env \<Rightarrow> world \<Rightarrow> nat \<Rightarrow> unit outcome" where
  "main e w n =
     and_then (x11_init e w state_zero)
     (\<lambda>state w.
     and_then (init_gc e w state X11_GC_GRAPHICS_EXPOSURES [X11_EXPOSURES_NOT_ALLOWED])
     (\<lambda>state w.
     case screens_0_root_id state of
       None \<Rightarrow> Undefined w
     | Some root \<Rightarrow>
     (case screens_0_root_visual_id state of
       None \<Rightarrow> Undefined w
     | Some visual \<Rightarrow>
     and_then (init_window e w state 0 0 320 240 root visual X11_CW_BACK_PIXEL [0xff00ff])
     (\<lambda>state w.
     and_then (map_window e w state)
     (\<lambda>state w. Idling state (idle n w))))))"

section \<open>Complete transfers\<close>

text \<open>
  A transport call is complete when the count it returned, converted as the comparison
  in \<^verbatim>\<open>fatal_write\<close> and \<^verbatim>\<open>fatal_read\<close> converts it, is the count it was asked for.
\<close>

fun complete :: "syscall \<Rightarrow> bool" where
  "complete (Write fd bytes r) = (size_t_of_ssize_t r = length bytes)"
| "complete (Recvfrom fd count r bytes) = (size_t_of_ssize_t r = count)"

text \<open>
  The invariant of a run that started with the error lines \<open>errs\<close>: as long as the
  process lives every transfer so far was complete and nothing has been printed; when it
  has exited, it did so with \<^verbatim>\<open>exit(-1)\<close> after printing one line, every transfer but
  the last was complete, and the line is that of a transport primitive if the last was
  not.
\<close>

fun fail_fast :: "string list \<Rightarrow> 'a outcome \<Rightarrow> bool" where
  "fail_fast errs (Undefined w) = (list_all complete (trace w) \<and> err w = errs)"
| "fail_fast errs (Exited w c) =
     (c = - 1 \<and> list_all complete (butlast (trace w))
      \<and> (\<exists>msg. err w = errs @ [msg]
            \<and> (list_all complete (trace w) \<or> msg = ''Failed to write.''
                \<or> msg = ''Failed to read.'')))"
| "fail_fast errs (Idling s w) = (list_all complete (trace w) \<and> err w = errs)"
| "fail_fast errs (Returned x w) = (list_all complete (trace w) \<and> err w = errs)"

section \<open>Runs in which the handshake goes through\<close>

text \<open>The bytes the process has handed to \<^verbatim>\<open>write\<close>, in order.\<close>

fun written :: "syscall \<Rightarrow> u8 list" where
  "written (Write fd bytes r) = bytes"
| "written (Recvfrom fd count r bytes) = []"

definition sent :: "world \<Rightarrow> u8 list" where
  "sent w = concat (map written (trace w))"

text \<open>
  The socket is created and connected, the credential file opens and \<^verbatim>\<open>fread\<close> finds
  \<open>contents\<close> in it, and the kernel takes each of the three writes of the handshake
  whole.
\<close>

definition handshake_accepted :: "env \<Rightarrow> world \<Rightarrow> u8 list \<Rightarrow> bool" where
  "handshake_accepted e w contents =
     (0 \<le> socket_ret e \<and> 0 \<le> connect_ret e \<and> xauth_file e = Some contents
      \<and> write_ret e (length (trace w)) 12 = 12
      \<and> write_ret e (length (trace w) + 1) 20 = 20
      \<and> write_ret e (length (trace w) + 2) 16 = 16)"

text \<open>
  The server answers the handshake: at the first read at least eight bytes are ready, of
  which \<open>header\<close> are the first eight, with a success byte other than zero; at the
  second read at least the announced number of bytes are ready, of which \<open>body\<close> are
  the first.
\<close>

definition success_reply :: "env \<Rightarrow> world \<Rightarrow> u8 list \<Rightarrow> u8 list \<Rightarrow> bool" where
  "success_reply e w header body =
     ((\<exists>d. recv_data e (length (trace w) + 3) = Some d \<and> 8 \<le> length d \<and> header = take 8 d)
      \<and> success (connection_reply_header_of header) \<noteq> 0
      \<and> (\<exists>d. recv_data e (length (trace w) + 4) = Some d
             \<and> unat (len (connection_reply_header_of header)) * 4 \<le> length d
             \<and> body = take (unat (len (connection_reply_header_of header)) * 4) d))"

text \<open>The kernel takes the three requests of the driver whole.\<close>

definition requests_accepted :: "env \<Rightarrow> world \<Rightarrow> bool" where
  "requests_accepted e w =
     (write_ret e (length (trace w) + 5) 20 = 20
      \<and> write_ret e (length (trace w) + 6) 36 = 36
      \<and> write_ret e (length (trace w) + 7) 8 = 8)"

section \<open>The reply body on the wire\<close>

text \<open>
  Where the screen array stands in a reply body laid out as section 3 of the
  specification says the protocol has it: after the 32-byte fixed prefix, the vendor
  string padded to a 4-byte boundary, and the 8-byte pixmap formats. This is the layout
  of the X11 wire format, not a computation of the client, which adds the unpadded
  \<^verbatim>\<open>vendor_len\<close> in \<^verbatim>\<open>x11_init\<close>.
\<close>

definition pad4 :: "nat \<Rightarrow> nat" where
  "pad4 n = (n + 3) div 4 * 4"

definition wire_screens_offset :: "u8 list \<Rightarrow> nat option" where
  "wire_screens_offset body =
     (case (vendor_len body, num_pixmap_formats body) of
        (Some vl, Some npf) \<Rightarrow> Some (32 + pad4 (unat vl) + unat npf * 8)
      | _ \<Rightarrow> None)"

section \<open>A concrete session\<close>

text \<open>
  One run, for evaluating the functions on: the server answers with a success header
  announcing 19 words; the body has \<^verbatim>\<open>id_base\<close> \<open>0x400000\<close>, the four-byte vendor
  string \<^verbatim>\<open>Xorg\<close>, no pixmap formats and one screen with root window 100 and root
  visual 200; every write is taken whole; the credential file holds 36 bytes.
\<close>

definition example_cookie :: "u8 list" where
  "example_cookie = [1, 2, 3, 4, 5, 6, 7, 8, 9, 10, 11, 12, 13, 14, 15, 16]"

definition example_header :: "u8 list" where
  "example_header = [1, 0, 11, 0, 0, 0, 19, 0]"

definition example_body :: "u8 list" where
  "example_body =
     [0, 0, 0, 0,  0, 0, 64, 0,  0xFF, 0xFF, 0x1F, 0,  0, 1, 0, 0,
      4, 0,  0xFF, 0xFF,  1, 0, 0, 0, 32, 32, 8, 255,  0, 0, 0, 0,
      88, 111, 114, 103,
      100, 0, 0, 0,  0, 0, 0, 0,  0, 0, 0, 0,  0, 0, 0, 0,  0, 0, 0, 0,
      0, 4, 0, 3,  0, 0, 0, 0,  1, 0, 1, 0,
      200, 0, 0, 0,  0, 0, 24, 0]"

definition example_env :: env where
  "example_env =
     \<lparr>socket_ret = 3, connect_ret = 0,
      xauth_file = Some (replicate 20 7 @ example_cookie),
      write_ret = (\<lambda>k n. int n),
      recv_data = (\<lambda>k. if k = 3 then Some example_header
                         else if k = 4 then Some example_body else None)\<rparr>"

definition world_empty :: world where
  "world_empty = \<lparr>trace = [], err = [], slept = 0\<rparr>"

definition example_state :: state_t where
  "example_state =
     \<lparr>socket_fd = 3,
      connection_reply_header =
        \<lparr>success = 1, pad = 0, reply_major_version = 11, reply_minor_version = 0, len = 19\<rparr>,
      connection_reply_success_body = Some example_body,
      pixmap_formats = Body 36, screens = Body 36,
      next_resource_id = 0x400000, graphics_context_id = 0, window_id = 0\<rparr>"

text \<open>An environment in which the kernel takes one byte less than asked of every write.\<close>

definition short_env :: env where
  "short_env = example_env\<lparr>write_ret := (\<lambda>k n. int n - 1)\<rparr>"

text \<open>An environment in which the server sends only seven bytes of its reply header.\<close>

definition short_read_env :: env where
  "short_read_env =
     example_env\<lparr>recv_data := (\<lambda>k. if k = 3 then Some (butlast example_header) else None)\<rparr>"

text \<open>
  A server whose vendor string has five bytes, \<^verbatim>\<open>Xorg!\<close>, padded with three null
  bytes as the protocol requires: the reply announces 20 words, and its one screen (root
  window 100, root visual 200) stands at offset 40 of the body.
\<close>

definition padded_header :: "u8 list" where
  "padded_header = [1, 0, 11, 0, 0, 0, 20, 0]"

definition padded_body :: "u8 list" where
  "padded_body =
     [0, 0, 0, 0,  0, 0, 64, 0,  0xFF, 0xFF, 0x1F, 0,  0, 1, 0, 0,
      5, 0,  0xFF, 0xFF,  1, 0, 0, 0, 32, 32, 8, 255,  0, 0, 0, 0,
      88, 111, 114, 103, 33,  0, 0, 0,
      100, 0, 0, 0,  0, 0, 0, 0,  0, 0, 0, 0,  0, 0, 0, 0,  0, 0, 0, 0,
      0, 4, 0, 3,  0, 0, 0, 0,  1, 0, 1, 0,
      200, 0, 0, 0,  0, 0, 24, 0]"

definition padded_env :: env where
  "padded_env =
     example_env\<lparr>recv_data := (\<lambda>k. if k = 3 then Some padded_header
                                      else if k = 4 then Some padded_body else None)\<rparr>"

text \<open>A server that assigns the resource identifier base \<open>0xFFFFFFFF\<close>.\<close>

definition wrap_body :: "u8 list" where
  "wrap_body = take 4 example_body @ [0xFF, 0xFF, 0xFF, 0xFF] @ drop 8 example_body"

definition wrap_env :: env where
  "wrap_env =
     example_env\<lparr>recv_data := (\<lambda>k. if k = 3 then Some example_header
                                      else if k = 4 then Some wrap_body else None)\<rparr>"

section \<open>Auxiliary facts\<close>

subsection \<open>The bit count\<close>

lemma popcount_le: "popcount v \<le> 32"
  unfolding popcount_def using length_filter_le [of "bit v" "[0..<32]"] by simp

lemma popcount_zero: "popcount 0 = 0"
  by (simp add: popcount_def)

lemma filter_upt_Suc:
  "length (filter P [0..<Suc n]) = (if P 0 then 1 else 0) + length (filter (P \<circ> Suc) [0..<n])"
proof -
  have "[0..<Suc n] = 0 # map Suc [0..<n]"
    by (simp add: upt_conv_Cons map_Suc_upt del: upt_Suc)
  then show ?thesis
    by (simp add: filter_map del: upt_Suc)
qed

lemma popcount_step: "popcount v = unat (v AND 1) + popcount (drop_bit 1 v)"
proof -
  have a: "unat (v AND 1) = (if bit v 0 then 1 else 0)"
  proof -
    have "unat (v AND 1) = unat v mod 2"
      by (simp add: and_one_eq unat_mod)
    moreover have "bit v 0 = odd (unat v)"
      by (metis bit_0 even_of_nat mod_by_0 unat_mod word_arith_nat_mod)
    ultimately show ?thesis
      by (simp add: odd_iff_mod_2_eq_one)
  qed
  have b: "bit v \<circ> Suc = bit (drop_bit 1 v)"
    by (rule ext) (simp add: bit_drop_bit_eq)
  have c: "\<not> bit (drop_bit 1 v) 31"
    by (auto simp: bit_drop_bit_eq dest: bit_imp_le_length)
  have "popcount v = (if bit v 0 then 1 else 0) + length (filter (bit (drop_bit 1 v)) [0..<31])"
    unfolding popcount_def using filter_upt_Suc [of "bit v" 31] b by simp
  moreover have "popcount (drop_bit 1 v) = length (filter (bit (drop_bit 1 v)) [0..<31])"
  proof -
    have "[0..<Suc 31] = [0..<31] @ [31]"
      by (rule upt_Suc_append) simp
    moreover have "Suc 31 = 32"
      by simp
    ultimately have "[0..<32] = [0..<31] @ [31::nat]"
      by (simp only:)
    then show ?thesis
      unfolding popcount_def using c by (simp only: filter_append filter.simps if_False append_Nil2)
  qed
  ultimately show ?thesis using a by simp
qed

lemma popcnt_loop_eq: "popcnt_loop count v = count + of_nat (popcount v)"
proof (induction count v rule: popcnt_loop.induct)
  case (1 count v)
  show ?case
  proof (cases "v = 0")
    case True
    then show ?thesis by (simp add: popcnt_loop.simps popcount_zero)
  next
    case False
    have "popcnt_loop count v = popcnt_loop (count + (v AND 1)) (drop_bit 1 v)"
      using False by (subst popcnt_loop.simps) simp
    also have "\<dots> = count + (v AND 1) + of_nat (popcount (drop_bit 1 v))"
      using 1 False by simp
    also have "\<dots> = count + of_nat (popcount v)"
      by (simp add: popcount_step [of v])
    finally show ?thesis .
  qed
qed

lemma unat_popcnt: "unat (popcnt v) = popcount v"
  using popcount_le [of v] by (simp add: popcnt_def popcnt_loop_eq unat_of_nat)


lemma those_map_Some: "those (map Some xs) = Some xs"
  by (induction xs) simp_all

lemma length_le32: "length (le32 v) = 4"
  by (simp add: le32_def)

lemma length_concat_le32: "length (concat (map le32 ws)) = 4 * length ws"
  by (induction ws) (simp_all add: length_le32)

lemma mem_bytes_append: "mem_bytes (p @ q) = mem_bytes p @ mem_bytes q"
  by (simp add: mem_bytes_def)

lemma mem_bytes_map_Some: "mem_bytes (map Some ws) = map Some (concat (map le32 ws))"
  by (induction ws) (simp_all add: mem_bytes_def)

lemma fatal_write_words:
  "fatal_write e w fd (mem_bytes (map Some ws @ rest)) (4 * length ws) =
     (if size_t_of_ssize_t (write_ret e (length (trace w)) (4 * length ws)) \<noteq> 4 * length ws
      then FATAL_ERROR
             (w\<lparr>trace := trace w @ [Write fd (concat (map le32 ws))
                                         (write_ret e (length (trace w)) (4 * length ws))]\<rparr>)
             ''Failed to write.''
      else Returned ()
             (w\<lparr>trace := trace w @ [Write fd (concat (map le32 ws))
                                         (write_ret e (length (trace w)) (4 * length ws))]\<rparr>))"
proof -
  have "take (4 * length ws) (mem_bytes (map Some ws @ rest)) = map Some (concat (map le32 ws))"
    by (simp add: mem_bytes_append mem_bytes_map_Some length_concat_le32)
  moreover have "4 * length ws \<le> length (mem_bytes (map Some ws @ rest))"
    by (simp add: mem_bytes_append mem_bytes_map_Some length_concat_le32)
  ultimately show ?thesis
    by (simp add: fatal_write_def those_map_Some Let_def)
qed

lemma copy_values_eq:
  "i \<le> n \<Longrightarrow> n \<le> length vl \<Longrightarrow> base + n \<le> length p \<Longrightarrow>
   copy_values base p vl n i =
     Some (take (base + i) p @ map Some (drop i (take n vl)) @ drop (base + n) p)"
proof (induction base p vl n i rule: copy_values.induct)
  case (1 base packet value_list flag_count i)
  show ?case
  proof (cases "i < flag_count")
    case False
    with 1(2) have "i = flag_count" by simp
    then show ?thesis
      by (subst copy_values.simps) simp
  next
    case True
    let ?v = "value_list ! i"
    let ?p = "packet[base + i := Some ?v]"
    have ld: "load value_list i = Some ?v"
      using True 1(3) by (simp add: load_def)
    have st: "store packet (base + i) ?v = Some ?p"
      using True 1(4) by (simp add: store_def)
    have ih: "copy_values base ?p value_list flag_count (i + 1) =
        Some (take (base + (i + 1)) ?p @ map Some (drop (i + 1) (take flag_count value_list))
              @ drop (base + flag_count) ?p)"
      using "1.IH" [OF True ld st] True 1(3,4) by simp
    have t: "take (base + (i + 1)) ?p = take (base + i) packet @ [Some ?v]"
      using True 1(4) by (simp add: take_Suc_conv_app_nth)
    have d: "drop (base + flag_count) ?p = drop (base + flag_count) packet"
      using True by simp
    have c: "drop i (take flag_count value_list) = ?v # drop (i + 1) (take flag_count value_list)"
      using True 1(3) by (simp add: Cons_nth_drop_Suc [symmetric])
    have "copy_values base packet value_list flag_count i =
            copy_values base ?p value_list flag_count (i + 1)"
      using True ld st by (subst copy_values.simps) simp
    with ih t d c show ?thesis
      by simp
  qed
qed


lemma ucast_popcnt: "(ucast (popcnt v) :: u16) = of_nat (popcount v)"
  by (metis of_nat_unat unat_popcnt)

lemma unat_len16: "n \<le> 40 \<Longrightarrow> unat (of_nat n :: u16) = n"
  by (simp add: unat_of_nat)

lemma ucast_len16: "n \<le> 40 \<Longrightarrow> (ucast (of_nat n :: u16) :: u32) = of_nat n"
  by (simp add: unsigned_of_nat take_bit_nat_eq_self)

lemma word0_low_byte: "(ucast ((ucast (op :: u8) :: u32) OR push_bit 16 x) :: u8) = op"
  by (rule bit_word_eqI) (auto simp: bit_simps)

lemma word0_high_half: "drop_bit 16 ((ucast (op :: u8) :: u32) OR push_bit 16 (ucast (l :: u16))) = ucast l"
  by (rule bit_word_eqI) (auto simp: bit_simps dest: bit_imp_le_length)

lemma list_update_Cons_numeral: "(x # xs)[numeral v := y] = x # xs[numeral v - 1 := y]"
  by (simp add: numeral_eq_Suc)

lemma copy_values_prefix:
  assumes "length hdr = base" and "n \<le> length vl" and "n \<le> 32"
  shows "copy_values base (hdr @ replicate 32 None) vl n 0 =
           Some (hdr @ map Some (take n vl) @ replicate (32 - n) None)"
  using assms copy_values_eq [of 0 n vl base "hdr @ replicate 32 None"] by simp

lemma replicate_4: "replicate 4 x = [x, x, x, x]"
  by (simp add: numeral_eq_Suc)

lemma replicate_4_32: "replicate (4 + 32) x = [x, x, x, x] @ replicate 32 x"
  by (simp only: replicate_add replicate_4)

lemma init_gc_packet_eq:
  assumes vl: "popcount M \<le> length vl" and root: "screens_0_root_id s = Some R"
  shows "init_gc_packet s M vl =
           Some (of_nat (4 + popcount M),
                 map Some ([X11_OPCODE_CREATE_GC OR push_bit 16 (of_nat (4 + popcount M)),
                            graphics_context_id s, R, M] @ take (popcount M) vl)
                 @ replicate (32 - popcount M) None)"
proof -
  have le: "popcount M \<le> 32"
    by (rule popcount_le)
  have fc: "unat (of_nat (popcount M) :: u16) = popcount M"
    using le by (simp add: unat_len16)
  have l32: "(ucast (4 + of_nat (popcount M) :: u16) :: u32) = of_nat (4 + popcount M)"
    using le ucast_len16 [of "4 + popcount M"] by simp
  have cv: "copy_values 4 (Some a # Some b # Some c # Some d # replicate 32 None) vl (popcount M) 0 =
      Some (Some a # Some b # Some c # Some d # map Some (take (popcount M) vl)
            @ replicate (32 - popcount M) None)" for a b c d
    using vl le copy_values_prefix [of "[Some a, Some b, Some c, Some d]" 4 "popcount M" vl]
    by simp
  show ?thesis
    unfolding init_gc_packet_def ucast_popcnt Let_def replicate_4_32 fc l32
    using root by (simp add: store_def list_update_Cons_numeral cv)
qed


lemma replicate_8_32: "replicate (8 + 32) x = [x, x, x, x, x, x, x, x] @ replicate 32 x"
proof -
  have "replicate 8 x = [x, x, x, x, x, x, x, x]"
    by (simp add: numeral_eq_Suc)
  then show ?thesis
    by (simp only: replicate_add)
qed

lemma init_window_packet_eq:
  assumes vl: "popcount M \<le> length vl"
  shows "init_window_packet s x y w h parent visual M vl =
           Some (of_nat (8 + popcount M),
                 map Some ([X11_OPCODE_CREATE_WINDOW OR push_bit 16 (of_nat (8 + popcount M)),
                            window_id s, parent, ucast x OR push_bit 16 (ucast y),
                            ucast w OR push_bit 16 (ucast h),
                            push_bit 16 X11_DEFAULT_BORDER OR X11_DEFAULT_GROUP, visual, M]
                           @ take (popcount M) vl)
                 @ replicate (32 - popcount M) None)"
proof -
  have le: "popcount M \<le> 32"
    by (rule popcount_le)
  have fc: "unat (of_nat (popcount M) :: u16) = popcount M"
    using le by (simp add: unat_len16)
  have l32: "(ucast (8 + of_nat (popcount M) :: u16) :: u32) = of_nat (8 + popcount M)"
    using le ucast_len16 [of "8 + popcount M"] by simp
  have cv: "copy_values 8 (Some a # Some b # Some c # Some d # Some a' # Some b' # Some c' # Some d'
                           # replicate 32 None) vl (popcount M) 0 =
      Some (Some a # Some b # Some c # Some d # Some a' # Some b' # Some c' # Some d'
            # map Some (take (popcount M) vl) @ replicate (32 - popcount M) None)"
    for a b c d a' b' c' d'
    using vl le
      copy_values_prefix [of "[Some a, Some b, Some c, Some d, Some a', Some b', Some c', Some d']"
                             8 "popcount M" vl]
    by simp
  show ?thesis
    unfolding init_window_packet_def ucast_popcnt Let_def replicate_8_32 fc l32
    by (simp add: store_def list_update_Cons_numeral cv)
qed

lemma map_window_packet_eq:
  "map_window_packet s = Some [Some (X11_OPCODE_MAP_WINDOW OR push_bit 16 2), Some (window_id s)]"
proof -
  have "unat (2 :: u32) = 2"
    by simp
  moreover have "replicate 2 None = [None, None :: u32 option]"
    by (simp add: numeral_2_eq_2)
  ultimately have "replicate (unat (2 :: u32)) None = [None, None :: u32 option]"
    by (simp only:)
  then show ?thesis
    unfolding map_window_packet_def Let_def by (simp add: store_def)
qed

lemma fatal_write_words':
  assumes "count = 4 * length ws"
  shows "fatal_write e w fd (mem_bytes (map Some ws @ rest)) count =
     (if size_t_of_ssize_t (write_ret e (length (trace w)) count) \<noteq> count
      then FATAL_ERROR
             (w\<lparr>trace := trace w @ [Write fd (concat (map le32 ws))
                                         (write_ret e (length (trace w)) count)]\<rparr>)
             ''Failed to write.''
      else Returned ()
             (w\<lparr>trace := trace w @ [Write fd (concat (map le32 ws))
                                         (write_ret e (length (trace w)) count)]\<rparr>))"
  unfolding assms by (rule fatal_write_words)

lemma popcount_gc: "popcount X11_GC_GRAPHICS_EXPOSURES = 1"
  unfolding X11_GC_GRAPHICS_EXPOSURES_def by code_simp

lemma popcount_cw: "popcount X11_CW_BACK_PIXEL = 1"
  unfolding X11_CW_BACK_PIXEL_def by code_simp

subsection \<open>The three requests\<close>

lemma init_gc_run:
  assumes "length value_list = popcount value_mask"
    and "screens_0_root_id state = Some root"
  shows "let new_id = fst (generate_id state);
             n = 4 + popcount value_mask;
             words = [X11_OPCODE_CREATE_GC OR push_bit 16 (of_nat n), new_id, root, value_mask]
                     @ value_list;
             r = write_ret e (length (trace w)) (n * 4);
             w' = w\<lparr>trace := trace w @ [Write (socket_fd state) (concat (map le32 words)) r]\<rparr>
         in init_gc e w state value_mask value_list =
              (if size_t_of_ssize_t r \<noteq> n * 4 then FATAL_ERROR w' ''Failed to write.''
               else Returned ((snd (generate_id state))\<lparr>graphics_context_id := new_id\<rparr>) w')
            \<and> length (concat (map le32 words)) = n * 4
            \<and> (ucast (words ! 0) :: u8) = 16
            \<and> drop_bit 16 (words ! 0) = of_nat n"
proof -
  let ?n = "4 + popcount value_mask"
  let ?s = "(snd (generate_id state))\<lparr>graphics_context_id := fst (generate_id state)\<rparr>"
  let ?ws = "[X11_OPCODE_CREATE_GC OR push_bit 16 (of_nat ?n), fst (generate_id state), root,
              value_mask] @ value_list"
  have le: "popcount value_mask \<le> 32"
    by (rule popcount_le)
  have root': "screens_0_root_id ?s = Some root"
    using assms(2) by (simp add: screens_0_root_id_def generate_id_def)
  have pk: "init_gc_packet ?s value_mask value_list =
              Some (of_nat ?n, map Some ?ws @ replicate (32 - popcount value_mask) None)"
    using init_gc_packet_eq [OF _ root', of value_mask value_list] assms(1)
    by (simp add: generate_id_def)
  have cnt: "unat (of_nat ?n :: u16) * 4 = 4 * length ?ws"
    using le assms(1) unat_len16 [of ?n] by simp
  have fd: "socket_fd ?s = socket_fd state"
    by (simp add: generate_id_def)
  have run: "init_gc e w state value_mask value_list =
      and_then (fatal_write e w (socket_fd state)
                  (mem_bytes (map Some ?ws @ replicate (32 - popcount value_mask) None))
                  (unat (of_nat ?n :: u16) * 4))
        (\<lambda>_ w. Returned ?s w)"
    unfolding init_gc_def using pk fd by (simp add: Let_def case_prod_beta)
  have n4: "unat (of_nat ?n :: u16) * 4 = ?n * 4"
    using le unat_len16 [of ?n] by simp
  have fw: "fatal_write e w (socket_fd state)
              (mem_bytes (map Some ?ws @ replicate (32 - popcount value_mask) None)) (?n * 4) =
      (if size_t_of_ssize_t (write_ret e (length (trace w)) (?n * 4)) \<noteq> ?n * 4
       then FATAL_ERROR (w\<lparr>trace := trace w @ [Write (socket_fd state) (concat (map le32 ?ws))
                             (write_ret e (length (trace w)) (?n * 4))]\<rparr>) ''Failed to write.''
       else Returned () (w\<lparr>trace := trace w @ [Write (socket_fd state) (concat (map le32 ?ws))
                             (write_ret e (length (trace w)) (?n * 4))]\<rparr>))"
    using cnt n4 by (intro fatal_write_words') simp
  have a: "init_gc e w state value_mask value_list =
      (if size_t_of_ssize_t (write_ret e (length (trace w)) (?n * 4)) \<noteq> ?n * 4
       then FATAL_ERROR (w\<lparr>trace := trace w @ [Write (socket_fd state) (concat (map le32 ?ws))
                             (write_ret e (length (trace w)) (?n * 4))]\<rparr>) ''Failed to write.''
       else Returned ?s (w\<lparr>trace := trace w @ [Write (socket_fd state) (concat (map le32 ?ws))
                             (write_ret e (length (trace w)) (?n * 4))]\<rparr>))"
    by (subst run, subst n4, subst fw) (simp add: FATAL_ERROR_def)
  have b: "length (concat (map le32 ?ws)) = ?n * 4"
    using assms(1) by (simp add: length_concat_le32 length_le32)
  have c: "(ucast (?ws ! 0) :: u8) = 16"
    using word0_low_byte [of 16] by (simp add: X11_OPCODE_CREATE_GC_def)
  have d: "drop_bit 16 (?ws ! 0) = of_nat ?n"
    using le word0_high_half [of 16 "of_nat ?n"] ucast_len16 [of ?n]
    by (simp add: X11_OPCODE_CREATE_GC_def)
  show ?thesis
    unfolding Let_def using a b c d by (simp only: simp_thms)
qed

lemma init_window_run:
  assumes "length value_list = popcount value_mask"
  shows "let new_id = fst (generate_id state);
             n = 8 + popcount value_mask;
             words = [X11_OPCODE_CREATE_WINDOW OR push_bit 16 (of_nat n), new_id, window_parent,
                      ucast x OR push_bit 16 (ucast y), ucast w OR push_bit 16 (ucast h),
                      0, visual, value_mask]
                     @ value_list;
             r = write_ret e (length (trace wo)) (n * 4);
             wo' = wo\<lparr>trace := trace wo @ [Write (socket_fd state) (concat (map le32 words)) r]\<rparr>
         in init_window e wo state x y w h window_parent visual value_mask value_list =
              (if size_t_of_ssize_t r \<noteq> n * 4 then FATAL_ERROR wo' ''Failed to write.''
               else Returned ((snd (generate_id state))\<lparr>window_id := new_id\<rparr>) wo')
            \<and> length (concat (map le32 words)) = n * 4
            \<and> (ucast (words ! 0) :: u8) = 1
            \<and> drop_bit 16 (words ! 0) = of_nat n"
proof -
  let ?n = "8 + popcount value_mask"
  let ?s = "(snd (generate_id state))\<lparr>window_id := fst (generate_id state)\<rparr>"
  let ?ws = "[X11_OPCODE_CREATE_WINDOW OR push_bit 16 (of_nat ?n), fst (generate_id state),
              window_parent, ucast x OR push_bit 16 (ucast y), ucast w OR push_bit 16 (ucast h),
              0, visual, value_mask] @ value_list"
  have le: "popcount value_mask \<le> 32"
    by (rule popcount_le)
  have pk: "init_window_packet ?s x y w h window_parent visual value_mask value_list =
              Some (of_nat ?n, map Some ?ws @ replicate (32 - popcount value_mask) None)"
    using init_window_packet_eq [of value_mask value_list ?s x y w h window_parent visual] assms
    by (simp add: generate_id_def X11_DEFAULT_BORDER_def X11_DEFAULT_GROUP_def)
  have n4: "unat (of_nat ?n :: u16) * 4 = ?n * 4"
    using le unat_len16 [of ?n] by simp
  have cnt: "?n * 4 = 4 * length ?ws"
    using assms by simp
  have fd: "socket_fd ?s = socket_fd state"
    by (simp add: generate_id_def)
  have run: "init_window e wo state x y w h window_parent visual value_mask value_list =
      and_then (fatal_write e wo (socket_fd state)
                  (mem_bytes (map Some ?ws @ replicate (32 - popcount value_mask) None))
                  (unat (of_nat ?n :: u16) * 4))
        (\<lambda>_ wo. Returned ?s wo)"
    unfolding init_window_def using pk fd by (simp add: Let_def case_prod_beta)
  have fw: "fatal_write e wo (socket_fd state)
              (mem_bytes (map Some ?ws @ replicate (32 - popcount value_mask) None)) (?n * 4) =
      (if size_t_of_ssize_t (write_ret e (length (trace wo)) (?n * 4)) \<noteq> ?n * 4
       then FATAL_ERROR (wo\<lparr>trace := trace wo @ [Write (socket_fd state) (concat (map le32 ?ws))
                             (write_ret e (length (trace wo)) (?n * 4))]\<rparr>) ''Failed to write.''
       else Returned () (wo\<lparr>trace := trace wo @ [Write (socket_fd state) (concat (map le32 ?ws))
                             (write_ret e (length (trace wo)) (?n * 4))]\<rparr>))"
    using cnt by (intro fatal_write_words')
  have a: "init_window e wo state x y w h window_parent visual value_mask value_list =
      (if size_t_of_ssize_t (write_ret e (length (trace wo)) (?n * 4)) \<noteq> ?n * 4
       then FATAL_ERROR (wo\<lparr>trace := trace wo @ [Write (socket_fd state) (concat (map le32 ?ws))
                             (write_ret e (length (trace wo)) (?n * 4))]\<rparr>) ''Failed to write.''
       else Returned ?s (wo\<lparr>trace := trace wo @ [Write (socket_fd state) (concat (map le32 ?ws))
                             (write_ret e (length (trace wo)) (?n * 4))]\<rparr>))"
    by (subst run, subst n4, subst fw) (simp add: FATAL_ERROR_def)
  have b: "length (concat (map le32 ?ws)) = ?n * 4"
    using assms by (simp add: length_concat_le32 length_le32)
  have c: "(ucast (?ws ! 0) :: u8) = 1"
    using word0_low_byte [of 1] by (simp add: X11_OPCODE_CREATE_WINDOW_def)
  have d: "drop_bit 16 (?ws ! 0) = of_nat ?n"
    using le word0_high_half [of 1 "of_nat ?n"] ucast_len16 [of ?n]
    by (simp add: X11_OPCODE_CREATE_WINDOW_def)
  show ?thesis
    unfolding Let_def using a b c d by (simp only: simp_thms)
qed

lemma map_window_run:
  "let r = write_ret e (length (trace w)) 8;
       w' = w\<lparr>trace := trace w @ [Write (socket_fd state)
                                     (le32 0x00020008 @ le32 (window_id state)) r]\<rparr>
   in map_window e w state =
        (if size_t_of_ssize_t r \<noteq> 8 then FATAL_ERROR w' ''Failed to write.''
         else Returned state w')
      \<and> length (le32 0x00020008 @ le32 (window_id state)) = 8"
proof -
  let ?ws = "[0x00020008, window_id state]"
  have pk: "map_window_packet state = Some (map Some ?ws @ [])"
    using map_window_packet_eq [of state] by (simp add: X11_OPCODE_MAP_WINDOW_def)
  have fw: "fatal_write e w (socket_fd state) (mem_bytes (map Some ?ws @ [])) 8 =
      (if size_t_of_ssize_t (write_ret e (length (trace w)) 8) \<noteq> 8
       then FATAL_ERROR (w\<lparr>trace := trace w @ [Write (socket_fd state) (concat (map le32 ?ws))
              (write_ret e (length (trace w)) 8)]\<rparr>) ''Failed to write.''
       else Returned () (w\<lparr>trace := trace w @ [Write (socket_fd state) (concat (map le32 ?ws))
              (write_ret e (length (trace w)) 8)]\<rparr>))"
    by (intro fatal_write_words') simp
  have run: "map_window e w state =
      and_then (fatal_write e w (socket_fd state) (mem_bytes (map Some ?ws @ [])) 8)
        (\<lambda>_ w. Returned state w)"
    unfolding map_window_def by (subst pk) simp
  show ?thesis
    unfolding Let_def by (subst run, subst fw) (simp add: FATAL_ERROR_def length_le32)
qed

subsection \<open>The example session\<close>

lemma example_root: "screens_0_root_id example_state = Some 100"
  by (simp add: screens_0_root_id_def example_state_def example_body_def root_id_def rd32_def)

lemma example_visual: "screens_0_root_visual_id example_state = Some 200"
  by (simp add: screens_0_root_visual_id_def example_state_def example_body_def
      root_visual_id_def rd32_def)

lemma init_gc_example:
  "init_gc example_env world_empty example_state X11_GC_GRAPHICS_EXPOSURES
      [X11_EXPOSURES_NOT_ALLOWED] =
     Returned (example_state\<lparr>next_resource_id := 0x400001, graphics_context_id := 0x400000\<rparr>)
       (world_empty\<lparr>trace :=
          [Write 3 [16, 0, 5, 0,  0, 0, 64, 0,  100, 0, 0, 0,  0, 0, 1, 0,  0, 0, 0, 0] 20]\<rparr>)"
proof -
  have p: "length [X11_EXPOSURES_NOT_ALLOWED] = popcount X11_GC_GRAPHICS_EXPOSURES"
    by (simp add: popcount_gc)
  show ?thesis
    using init_gc_run [OF p example_root, of example_env world_empty]
    apply (simp add: Let_def popcount_gc)
    apply (simp add: example_env_def world_empty_def example_state_def generate_id_def
        size_t_of_ssize_t_def X11_OPCODE_CREATE_GC_def X11_GC_GRAPHICS_EXPOSURES_def
        X11_EXPOSURES_NOT_ALLOWED_def le32_def)
    done
qed

lemma init_window_example:
  "init_window example_env world_empty example_state 0 0 320 240 100 200 X11_CW_BACK_PIXEL
        [0xff00ff] =
       Returned (example_state\<lparr>next_resource_id := 0x400001, window_id := 0x400000\<rparr>)
         (world_empty\<lparr>trace :=
            [Write 3 (concat (map le32 [0x00090001, 0x400000, 100, 0, 0x00F00140, 0, 200, 2,
                                         0xff00ff])) 36]\<rparr>)"
proof -
  have p: "length [0xff00ff :: u32] = popcount X11_CW_BACK_PIXEL"
    by (simp add: popcount_cw)
  show ?thesis
    using init_window_run [OF p, where e = example_env and wo = world_empty
        and state = example_state and x = 0 and y = 0 and w = 320 and h = 240
        and window_parent = 100 and visual = 200]
    apply (simp add: Let_def popcount_cw)
    apply (simp add: example_env_def world_empty_def example_state_def generate_id_def
        size_t_of_ssize_t_def X11_OPCODE_CREATE_WINDOW_def X11_CW_BACK_PIXEL_def le32_def)
    done
qed

lemma map_window_example:
  "map_window example_env world_empty example_state =
     Returned example_state (world_empty\<lparr>trace := [Write 3 [8, 0, 2, 0,  0, 0, 0, 0] 8]\<rparr>)"
  using map_window_run [of example_env world_empty example_state]
  by (simp add: Let_def example_env_def world_empty_def example_state_def size_t_of_ssize_t_def
      le32_def)

section \<open>Graphics-context request encoding\<close>

text \<open>
  Claim C4. For every attribute mask and every value list whose length is the number of
  set bits of the mask, \<^verbatim>\<open>init_gc\<close> makes one \<^verbatim>\<open>write\<close> of \<open>(4 + popcount M) * 4\<close>
  bytes on the session's socket: word 0 has opcode 16 in its low byte and the length
  \<open>4 + popcount M\<close> in its high 16 bits, word 1 is the identifier just allocated, word 2
  the root window of the first screen, word 3 the mask, and the value list follows in
  order. It returns when the kernel takes the whole request and exits otherwise.
\<close>

theorem init_gc_request:
  assumes "length value_list = popcount value_mask"
    and "screens_0_root_id state = Some root"
  shows "let new_id = fst (generate_id state);
             n = 4 + popcount value_mask;
             words = [X11_OPCODE_CREATE_GC OR push_bit 16 (of_nat n), new_id, root, value_mask]
                     @ value_list;
             r = write_ret e (length (trace w)) (n * 4);
             w' = w\<lparr>trace := trace w @ [Write (socket_fd state) (concat (map le32 words)) r]\<rparr>
         in init_gc e w state value_mask value_list =
              (if size_t_of_ssize_t r \<noteq> n * 4 then FATAL_ERROR w' ''Failed to write.''
               else Returned ((snd (generate_id state))\<lparr>graphics_context_id := new_id\<rparr>) w')
            \<and> length (concat (map le32 words)) = n * 4
            \<and> (ucast (words ! 0) :: u8) = 16
            \<and> drop_bit 16 (words ! 0) = of_nat n"
  using assms by (rule init_gc_run)

text \<open>
  The driver's call: mask bit 16, value list \<open>[0]\<close>. Twenty bytes are sent, the fifth
  word is 0.
\<close>

theorem init_gc_request_witness:
  "length [X11_EXPOSURES_NOT_ALLOWED] = popcount X11_GC_GRAPHICS_EXPOSURES
   \<and> screens_0_root_id example_state = Some 100
   \<and> init_gc example_env world_empty example_state X11_GC_GRAPHICS_EXPOSURES
        [X11_EXPOSURES_NOT_ALLOWED] =
       Returned (example_state\<lparr>next_resource_id := 0x400001, graphics_context_id := 0x400000\<rparr>)
         (world_empty\<lparr>trace :=
            [Write 3 [16, 0, 5, 0,  0, 0, 64, 0,  100, 0, 0, 0,  0, 0, 1, 0,  0, 0, 0, 0] 20]\<rparr>)"
proof -
  have p: "length [X11_EXPOSURES_NOT_ALLOWED] = popcount X11_GC_GRAPHICS_EXPOSURES"
    by (simp add: popcount_gc)
  have r: "screens_0_root_id example_state = Some 100"
    by (simp add: screens_0_root_id_def example_state_def example_body_def root_id_def rd32_def)
  show ?thesis
    using p r init_gc_request [OF p r, of example_env world_empty]
    apply (simp add: Let_def popcount_gc)
    apply (simp add: example_env_def world_empty_def example_state_def generate_id_def
        size_t_of_ssize_t_def X11_OPCODE_CREATE_GC_def X11_GC_GRAPHICS_EXPOSURES_def
        X11_EXPOSURES_NOT_ALLOWED_def le32_def)
    done
qed

section \<open>Window request encoding\<close>

text \<open>
  Claim C5. For every call of \<^verbatim>\<open>init_window\<close> with 16-bit \<open>x\<close>, \<open>y\<close>, \<open>w\<close>,
  \<open>h\<close>, a parent, a visual, an attribute mask and a value list whose length is the
  number of set bits of the mask, one \<^verbatim>\<open>write\<close> of \<open>(8 + popcount M) * 4\<close> bytes is
  made on the session's socket: word 0 has opcode 1 in its low byte and the length
  \<open>8 + popcount M\<close> in its high 16 bits, word 1 is the identifier just allocated, word 2
  the parent, word 3 is \<open>x | (y << 16)\<close>, word 4 is \<open>w | (h << 16)\<close>, word 5 is 0,
  word 6 the visual, word 7 the mask, and the value list follows in the order it was
  given. It returns when the kernel takes the whole request and exits otherwise.
\<close>

theorem init_window_request:
  assumes "length value_list = popcount value_mask"
  shows "let new_id = fst (generate_id state);
             n = 8 + popcount value_mask;
             words = [X11_OPCODE_CREATE_WINDOW OR push_bit 16 (of_nat n), new_id, window_parent,
                      ucast x OR push_bit 16 (ucast y), ucast w OR push_bit 16 (ucast h),
                      0, visual, value_mask]
                     @ value_list;
             r = write_ret e (length (trace wo)) (n * 4);
             wo' = wo\<lparr>trace := trace wo @ [Write (socket_fd state) (concat (map le32 words)) r]\<rparr>
         in init_window e wo state x y w h window_parent visual value_mask value_list =
              (if size_t_of_ssize_t r \<noteq> n * 4 then FATAL_ERROR wo' ''Failed to write.''
               else Returned ((snd (generate_id state))\<lparr>window_id := new_id\<rparr>) wo')
            \<and> length (concat (map le32 words)) = n * 4
            \<and> (ucast (words ! 0) :: u8) = 1
            \<and> drop_bit 16 (words ! 0) = of_nat n"
  using assms by (rule init_window_run)

text \<open>
  The driver's call: position (0, 0), size 320 by 240, mask bit 1, value list
  \<open>[0xFF00FF]\<close>. Thirty-six bytes are sent and word 4 is \<open>0x00F00140\<close>.
\<close>

theorem init_window_request_witness:
  "length [0xff00ff :: u32] = popcount X11_CW_BACK_PIXEL
   \<and> init_window example_env world_empty example_state 0 0 320 240 100 200 X11_CW_BACK_PIXEL
        [0xff00ff] =
       Returned (example_state\<lparr>next_resource_id := 0x400001, window_id := 0x400000\<rparr>)
         (world_empty\<lparr>trace :=
            [Write 3 (concat (map le32 [0x00090001, 0x400000, 100, 0, 0x00F00140, 0, 200, 2,
                                         0xff00ff])) 36]\<rparr>)
   \<and> length (concat (map le32 [0x00090001, 0x400000, 100, 0, 0x00F00140, 0, 200, 2,
                                  0xff00ff])) = 36"
proof -
  have p: "length [0xff00ff :: u32] = popcount X11_CW_BACK_PIXEL"
    by (simp add: popcount_cw)
  show ?thesis
    using p init_window_request [OF p, where e = example_env and wo = world_empty
        and state = example_state and x = 0 and y = 0 and w = 320 and h = 240
        and window_parent = 100 and visual = 200]
    apply (simp add: Let_def popcount_cw)
    apply (simp add: example_env_def world_empty_def example_state_def generate_id_def
        size_t_of_ssize_t_def X11_OPCODE_CREATE_WINDOW_def X11_CW_BACK_PIXEL_def le32_def)
    done
qed

section \<open>Map-window encoding\<close>

text \<open>
  Claim C6. For every session state, \<^verbatim>\<open>map_window\<close> makes one \<^verbatim>\<open>write\<close> of exactly
  8 bytes on the session's socket: word 0 is \<open>0x00020008\<close> (opcode 8 in the low byte,
  length 2 in the high 16 bits) and word 1 is the state's current window identifier.
\<close>

theorem map_window_request:
  "let r = write_ret e (length (trace w)) 8;
       w' = w\<lparr>trace := trace w @ [Write (socket_fd state)
                                     (le32 0x00020008 @ le32 (window_id state)) r]\<rparr>
   in map_window e w state =
        (if size_t_of_ssize_t r \<noteq> 8 then FATAL_ERROR w' ''Failed to write.''
         else Returned state w')
      \<and> length (le32 0x00020008 @ le32 (window_id state)) = 8"
  by (rule map_window_run)

text \<open>For the window \<open>0x400001\<close> the eight bytes are 8, 0, 2, 0, 1, 0, 64, 0.\<close>

theorem map_window_request_witness:
  "map_window example_env world_empty (example_state\<lparr>window_id := 0x400001\<rparr>) =
     Returned (example_state\<lparr>window_id := 0x400001\<rparr>)
       (world_empty\<lparr>trace := [Write 3 [8, 0, 2, 0,  1, 0, 64, 0] 8]\<rparr>)"
  using map_window_request [of example_env world_empty "example_state\<lparr>window_id := 0x400001\<rparr>"]
  by (simp add: Let_def example_env_def world_empty_def example_state_def size_t_of_ssize_t_def
      le32_def)

lemma popcount_all: "popcount 0xFFFFFFFF = 32"
  by code_simp

lemma determinate_prefix:
  assumes "length ws = k" and "i < k + m"
  shows "((map Some ws @ replicate m None) ! i \<noteq> None) = (i < k)"
  using assms by (auto simp: nth_append)

section \<open>Scratch buffer bounds\<close>

text \<open>
  Claim C9. For every 32-bit mask the count \<^verbatim>\<open>popcnt\<close> computes is at most 32. So,
  given a value list with at least that many entries, no store of \<^verbatim>\<open>init_gc\<close> or
  \<^verbatim>\<open>init_window\<close> leaves the scratch buffer (a store out of bounds would make the
  packet \<open>None\<close>): the buffer keeps its 36 (40) words, and exactly the words 0 to
  \<open>4 + popcnt M - 1\<close> (\<open>8 + popcnt M - 1\<close>) have been written.
\<close>

theorem scratch_buffer_bounds:
  "unat (popcnt M) \<le> 32
   \<and> (unat (popcnt M) \<le> length vl \<longrightarrow> screens_0_root_id s = Some R \<longrightarrow>
        (\<exists>l p. init_gc_packet s M vl = Some (l, p) \<and> length p = 4 + 32
               \<and> (\<forall>i < 4 + 32. (p ! i \<noteq> None) = (i < 4 + unat (popcnt M)))))
   \<and> (unat (popcnt M) \<le> length vl \<longrightarrow>
        (\<exists>l p. init_window_packet s x y w h parent visual M vl = Some (l, p) \<and> length p = 8 + 32
               \<and> (\<forall>i < 8 + 32. (p ! i \<noteq> None) = (i < 8 + unat (popcnt M)))))"
proof (intro conjI impI)
  show "unat (popcnt M) \<le> 32"
    by (simp add: unat_popcnt popcount_le)
next
  assume vl: "unat (popcnt M) \<le> length vl" and root: "screens_0_root_id s = Some R"
  let ?ws = "[X11_OPCODE_CREATE_GC OR push_bit 16 (of_nat (4 + popcount M)),
              graphics_context_id s, R, M] @ take (popcount M) vl"
  let ?p = "map Some ?ws @ replicate (32 - popcount M) None"
  have le: "popcount M \<le> 32"
    by (rule popcount_le)
  have pk: "init_gc_packet s M vl = Some (of_nat (4 + popcount M), ?p)"
    using vl root by (intro init_gc_packet_eq) (simp_all add: unat_popcnt)
  have len: "length ?ws = 4 + popcount M"
    using vl by (simp add: unat_popcnt)
  have "length ?p = 4 + 32"
    using le len by simp
  moreover have "\<forall>i < 4 + 32. (?p ! i \<noteq> None) = (i < 4 + unat (popcnt M))"
  proof (intro allI impI)
    fix i :: nat
    assume "i < 4 + 32"
    then have "i < (4 + popcount M) + (32 - popcount M)"
      using le by simp
    from determinate_prefix [OF len this] show "(?p ! i \<noteq> None) = (i < 4 + unat (popcnt M))"
      by (simp only: unat_popcnt)
  qed
  ultimately show "\<exists>l p. init_gc_packet s M vl = Some (l, p) \<and> length p = 4 + 32
               \<and> (\<forall>i < 4 + 32. (p ! i \<noteq> None) = (i < 4 + unat (popcnt M)))"
    using pk by blast
next
  assume vl: "unat (popcnt M) \<le> length vl"
  let ?ws = "[X11_OPCODE_CREATE_WINDOW OR push_bit 16 (of_nat (8 + popcount M)),
              window_id s, parent, ucast x OR push_bit 16 (ucast y),
              ucast w OR push_bit 16 (ucast h),
              push_bit 16 X11_DEFAULT_BORDER OR X11_DEFAULT_GROUP, visual, M]
             @ take (popcount M) vl"
  let ?p = "map Some ?ws @ replicate (32 - popcount M) None"
  have le: "popcount M \<le> 32"
    by (rule popcount_le)
  have pk: "init_window_packet s x y w h parent visual M vl = Some (of_nat (8 + popcount M), ?p)"
    using vl by (intro init_window_packet_eq) (simp_all add: unat_popcnt)
  have len: "length ?ws = 8 + popcount M"
    using vl by (simp add: unat_popcnt)
  have "length ?p = 8 + 32"
    using le len by simp
  moreover have "\<forall>i < 8 + 32. (?p ! i \<noteq> None) = (i < 8 + unat (popcnt M))"
  proof (intro allI impI)
    fix i :: nat
    assume "i < 8 + 32"
    then have "i < (8 + popcount M) + (32 - popcount M)"
      using le by simp
    from determinate_prefix [OF len this] show "(?p ! i \<noteq> None) = (i < 8 + unat (popcnt M))"
      by (simp only: unat_popcnt)
  qed
  ultimately show "\<exists>l p. init_window_packet s x y w h parent visual M vl = Some (l, p)
               \<and> length p = 8 + 32
               \<and> (\<forall>i < 8 + 32. (p ! i \<noteq> None) = (i < 8 + unat (popcnt M)))"
    using pk by blast
qed

text \<open>The extreme case: all 32 bits set, the last word of each buffer is written.\<close>

theorem scratch_buffer_bounds_witness:
  "unat (popcnt 0xFFFFFFFF) = 32
   \<and> length (replicate 32 (0 :: u32)) = 32
   \<and> screens_0_root_id example_state = Some 100
   \<and> (\<exists>l p. init_gc_packet example_state 0xFFFFFFFF (replicate 32 0) = Some (l, p)
            \<and> length p = 36 \<and> p ! 35 \<noteq> None)
   \<and> (\<exists>l p. init_window_packet example_state 0 0 320 240 100 200 0xFFFFFFFF (replicate 32 0)
              = Some (l, p)
            \<and> length p = 40 \<and> p ! 39 \<noteq> None)"
proof -
  have pc: "unat (popcnt 0xFFFFFFFF) = 32"
    by (simp add: unat_popcnt popcount_all)
  have r: "screens_0_root_id example_state = Some 100"
    by (simp add: screens_0_root_id_def example_state_def example_body_def root_id_def rd32_def)
  show ?thesis
    using pc r
      scratch_buffer_bounds [where M = "0xFFFFFFFF" and vl = "replicate 32 0"
        and s = example_state and R = 100 and x = 0 and y = 0 and w = 320 and h = 240
        and parent = 100 and visual = 200]
    by auto
qed

lemma and_then_Returned_const:
  "and_then m (\<lambda>_ w. Returned st w) = Returned s' w' \<Longrightarrow> s' = st"
  by (cases m) auto

section \<open>Frame of the three requests\<close>

text \<open>
  Claim C10. Whenever it returns, \<^verbatim>\<open>init_gc\<close> has changed only the graphics-context
  identifier and the next resource identifier of the session state, the latter going up by
  exactly one; \<^verbatim>\<open>init_window\<close> has changed only the window identifier and the next
  resource identifier, again up by one; \<^verbatim>\<open>map_window\<close> has changed nothing. The socket,
  the reply header, the reply body and the two views into it are as before in all three.
\<close>

theorem session_state_frame:
  "(init_gc e w state value_mask value_list = Returned s1 w1 \<longrightarrow>
      s1 = state\<lparr>next_resource_id := next_resource_id state + 1,
                 graphics_context_id := next_resource_id state\<rparr>)
   \<and> (init_window e w state x y wd h window_parent visual value_mask value_list = Returned s2 w2 \<longrightarrow>
      s2 = state\<lparr>next_resource_id := next_resource_id state + 1,
                 window_id := next_resource_id state\<rparr>)
   \<and> (map_window e w state = Returned s3 w3 \<longrightarrow> s3 = state)"
proof (intro conjI impI)
  assume "init_gc e w state value_mask value_list = Returned s1 w1"
  then show "s1 = state\<lparr>next_resource_id := next_resource_id state + 1,
                 graphics_context_id := next_resource_id state\<rparr>"
    by (auto simp: init_gc_def generate_id_def Let_def split: option.splits prod.splits
        dest: and_then_Returned_const)
next
  assume "init_window e w state x y wd h window_parent visual value_mask value_list = Returned s2 w2"
  then show "s2 = state\<lparr>next_resource_id := next_resource_id state + 1,
                 window_id := next_resource_id state\<rparr>"
    by (auto simp: init_window_def generate_id_def Let_def split: option.splits prod.splits
        dest: and_then_Returned_const)
next
  assume "map_window e w state = Returned s3 w3"
  then show "s3 = state"
    by (auto simp: map_window_def split: option.splits dest: and_then_Returned_const)
qed

text \<open>
  In the example session the three calls return with exactly these fields changed.
\<close>

theorem session_state_frame_witness:
  "init_gc example_env world_empty example_state X11_GC_GRAPHICS_EXPOSURES
      [X11_EXPOSURES_NOT_ALLOWED] =
     Returned (example_state\<lparr>next_resource_id := 0x400001, graphics_context_id := 0x400000\<rparr>)
       (world_empty\<lparr>trace :=
          [Write 3 [16, 0, 5, 0,  0, 0, 64, 0,  100, 0, 0, 0,  0, 0, 1, 0,  0, 0, 0, 0] 20]\<rparr>)
   \<and> init_window example_env world_empty example_state 0 0 320 240 100 200 X11_CW_BACK_PIXEL
        [0xff00ff] =
       Returned (example_state\<lparr>next_resource_id := 0x400001, window_id := 0x400000\<rparr>)
         (world_empty\<lparr>trace :=
            [Write 3 (concat (map le32 [0x00090001, 0x400000, 100, 0, 0x00F00140, 0, 200, 2,
                                         0xff00ff])) 36]\<rparr>)
   \<and> map_window example_env world_empty example_state =
       Returned example_state (world_empty\<lparr>trace := [Write 3 [8, 0, 2, 0,  0, 0, 0, 0] 8]\<rparr>)"
proof -
  obtain s1 w1 where g: "init_gc example_env world_empty example_state X11_GC_GRAPHICS_EXPOSURES
      [X11_EXPOSURES_NOT_ALLOWED] = Returned s1 w1"
    and w1: "w1 = world_empty\<lparr>trace :=
          [Write 3 [16, 0, 5, 0,  0, 0, 64, 0,  100, 0, 0, 0,  0, 0, 1, 0,  0, 0, 0, 0] 20]\<rparr>"
    using init_gc_example by simp
  obtain s2 w2 where iw: "init_window example_env world_empty example_state 0 0 320 240 100 200
      X11_CW_BACK_PIXEL [0xff00ff] = Returned s2 w2"
    and w2: "w2 = world_empty\<lparr>trace :=
            [Write 3 (concat (map le32 [0x00090001, 0x400000, 100, 0, 0x00F00140, 0, 200, 2,
                                         0xff00ff])) 36]\<rparr>"
    using init_window_example by simp
  obtain s3 w3 where mw: "map_window example_env world_empty example_state = Returned s3 w3"
    and w3: "w3 = world_empty\<lparr>trace := [Write 3 [8, 0, 2, 0,  0, 0, 0, 0] 8]\<rparr>"
    using map_window_example by simp
  note f = session_state_frame [where e = example_env and w = world_empty
      and state = example_state and value_mask = X11_GC_GRAPHICS_EXPOSURES
      and value_list = "[X11_EXPOSURES_NOT_ALLOWED]" and ?s1.0 = s1 and ?w1.0 = w1]
  from f g have "s1 = example_state\<lparr>next_resource_id := next_resource_id example_state + 1,
                 graphics_context_id := next_resource_id example_state\<rparr>"
    by blast
  then have s1: "s1 = example_state\<lparr>next_resource_id := 0x400001,
                 graphics_context_id := 0x400000\<rparr>"
    by (simp add: example_state_def)
  note f2 = session_state_frame [where e = example_env and w = world_empty
      and state = example_state and value_mask = X11_CW_BACK_PIXEL
      and value_list = "[0xff00ff]" and x = 0 and y = 0 and wd = 320 and h = 240
      and window_parent = 100 and visual = 200 and ?s2.0 = s2 and ?w2.0 = w2
      and ?s3.0 = s3 and ?w3.0 = w3]
  from f2 iw have "s2 = example_state\<lparr>next_resource_id := next_resource_id example_state + 1,
                 window_id := next_resource_id example_state\<rparr>"
    by blast
  then have s2: "s2 = example_state\<lparr>next_resource_id := 0x400001, window_id := 0x400000\<rparr>"
    by (simp add: example_state_def)
  from f2 mw have s3: "s3 = example_state"
    by blast
  from g w1 s1 iw w2 s2 mw w3 s3 show ?thesis
    by (simp only:)
qed

section \<open>Resource identifiers\<close>

lemma generate_ids_eq:
  "generate_ids n s =
     (map (\<lambda>i. next_resource_id s + of_nat i) [0..<n],
      s\<lparr>next_resource_id := next_resource_id s + of_nat n\<rparr>)"
proof (induction n arbitrary: s)
  case 0
  then show ?case by simp
next
  case (Suc n)
  have "[0..<Suc n] = 0 # map Suc [0..<n]"
    by (simp add: upt_conv_Cons map_Suc_upt del: upt_Suc)
  then have "map (\<lambda>i. next_resource_id s + of_nat i) [0..<Suc n] =
      next_resource_id s # map (\<lambda>i. next_resource_id s + 1 + of_nat i) [0..<n]"
    by (simp add: add.assoc del: upt_Suc)
  then show ?case
    by (simp add: Suc.IH generate_id_def add.assoc del: upt_Suc)
qed

lemma ids_distinct:
  assumes "n \<le> 2 ^ 32"
  shows "distinct (map (\<lambda>i. (b :: u32) + of_nat i) [0..<n])"
proof -
  have "inj_on (\<lambda>i. b + of_nat i) (set [0..<n])"
  proof (rule inj_onI)
    fix i j
    assume i: "i \<in> set [0..<n]" and j: "j \<in> set [0..<n]" and eq: "b + of_nat i = b + of_nat j"
    from eq have "(of_nat i :: u32) = of_nat j"
      by simp
    then have "unat (of_nat i :: u32) = unat (of_nat j :: u32)"
      by simp
    moreover have "i < 2 ^ 32" "j < 2 ^ 32"
      using i j assms by auto
    ultimately show "i = j"
      by (simp add: unat_of_nat)
  qed
  then show ?thesis
    by (simp add: distinct_map)
qed

lemma ids_no_wrap:
  assumes "unat (b :: u32) + n \<le> 2 ^ 32"
  shows "map unat (map (\<lambda>i. b + of_nat i) [0..<n]) = [unat b ..< unat b + n]"
proof (rule nth_equalityI)
  show "length (map unat (map (\<lambda>i. b + of_nat i) [0..<n])) = length [unat b ..< unat b + n]"
    by simp
next
  fix i
  assume "i < length (map unat (map (\<lambda>i. b + of_nat i) [0..<n]))"
  then have i: "i < n"
    by simp
  have "unat (b + of_nat i) = (unat b + i) mod 2 ^ 32"
    by (simp add: unat_word_ariths unat_of_nat mod_add_right_eq)
  also have "\<dots> = unat b + i"
    using i assms by simp
  finally show "map unat (map (\<lambda>i. b + of_nat i) [0..<n]) ! i = [unat b ..< unat b + n] ! i"
    using i by simp
qed

lemma ids_repeat:
  assumes "2 ^ 32 < n"
  shows "\<not> distinct (map (\<lambda>i. (b :: u32) + of_nat i) [0..<n])"
proof
  let ?xs = "map (\<lambda>i. b + of_nat i) [0..<n]"
  assume "distinct ?xs"
  moreover have "0 < length ?xs" "2 ^ 32 < length ?xs"
    using assms by simp_all
  moreover have "?xs ! 0 = ?xs ! (2 ^ 32)"
  proof -
    have "(of_nat (2 ^ 32) :: u32) = 0"
      by simp
    then show ?thesis
      using assms by (simp del: of_nat_numeral of_nat_power)
  qed
  ultimately have "(0::nat) = 2 ^ 32"
    by (simp only: nth_eq_iff_index_eq)
  then show False
    by simp
qed

text \<open>
  Claim C7, as amended. Each call of \<^verbatim>\<open>generate_id\<close> returns the counter and adds one
  to it, modulo \<open>2 ^ 32\<close>. So \<open>n\<close> consecutive calls from a counter \<open>B\<close> return
  \<open>B + i mod 2 ^ 32\<close> for \<open>i = 0, \<dots>, n - 1\<close>, in that order, and leave the
  counter at \<open>B + n mod 2 ^ 32\<close>. These are the numbers \<open>B, B + 1, \<dots>, B + n - 1\<close>
  when \<open>B + n \<le> 2 ^ 32\<close>, and no value is repeated when \<open>n \<le> 2 ^ 32\<close>.
\<close>

theorem generate_id_sequence:
  "generate_id s = (next_resource_id s, s\<lparr>next_resource_id := next_resource_id s + 1\<rparr>)
   \<and> fst (generate_ids n s) = map (\<lambda>i. next_resource_id s + of_nat i) [0..<n]
   \<and> next_resource_id (snd (generate_ids n s)) = next_resource_id s + of_nat n
   \<and> (unat (next_resource_id s) + n \<le> 2 ^ 32 \<longrightarrow>
        map unat (fst (generate_ids n s)) =
          [unat (next_resource_id s) ..< unat (next_resource_id s) + n])
   \<and> (n \<le> 2 ^ 32 \<longrightarrow> distinct (fst (generate_ids n s)))"
proof (intro conjI impI)
  show "generate_id s = (next_resource_id s, s\<lparr>next_resource_id := next_resource_id s + 1\<rparr>)"
    by (simp add: generate_id_def)
  show "fst (generate_ids n s) = map (\<lambda>i. next_resource_id s + of_nat i) [0..<n]"
    by (simp only: generate_ids_eq fst_conv)
  show "next_resource_id (snd (generate_ids n s)) = next_resource_id s + of_nat n"
    by (simp add: generate_ids_eq)
  show "map unat (fst (generate_ids n s)) =
          [unat (next_resource_id s) ..< unat (next_resource_id s) + n]"
    if "unat (next_resource_id s) + n \<le> 2 ^ 32"
    using ids_no_wrap [OF that] by (simp only: generate_ids_eq fst_conv)
  show "distinct (fst (generate_ids n s))" if "n \<le> 2 ^ 32"
    using ids_distinct [OF that] by (simp only: generate_ids_eq fst_conv)
qed

text \<open>Three calls from \<open>0x400000\<close>.\<close>

theorem generate_id_sequence_witness:
  "unat (next_resource_id example_state) + 3 \<le> 2 ^ 32
   \<and> (3 :: nat) \<le> 2 ^ 32
   \<and> map unat (fst (generate_ids 3 example_state)) = [4194304, 4194305, 4194306]
   \<and> distinct (fst (generate_ids 3 example_state))
   \<and> next_resource_id (snd (generate_ids 3 example_state)) = 4194307"
proof -
  note t = generate_id_sequence [of example_state 3]
  have a: "unat (next_resource_id example_state) + 3 \<le> 2 ^ 32"
    by (simp add: example_state_def)
  have b: "[unat (next_resource_id example_state) ..< unat (next_resource_id example_state) + 3]
           = [4194304, 4194305, 4194306]"
    by (simp add: example_state_def upt_rec)
  have c: "(3 :: nat) \<le> 2 ^ 32"
    by simp
  from t a have "map unat (fst (generate_ids 3 example_state)) =
      [unat (next_resource_id example_state) ..< unat (next_resource_id example_state) + 3]"
    by blast
  with b have m: "map unat (fst (generate_ids 3 example_state)) = [4194304, 4194305, 4194306]"
    by (simp only:)
  from t c have d: "distinct (fst (generate_ids 3 example_state))"
    by blast
  from t have "next_resource_id (snd (generate_ids 3 example_state)) =
      next_resource_id example_state + of_nat 3"
    by blast
  then have n: "next_resource_id (snd (generate_ids 3 example_state)) = 4194307"
    by (simp add: example_state_def)
  from a c m d n show ?thesis
    by (intro conjI)
qed

text \<open>
  Claim C7 as stated fails on the 32-bit counter: from \<open>B = 0xFFFFFFFF\<close> two calls
  return \<open>B\<close> and 0, not \<open>B\<close> and \<open>B + 1\<close>; and \<open>2 ^ 32 + 1\<close> calls return
  some value twice.
\<close>

theorem generate_id_wraps:
  "map unat (fst (generate_ids 2 (state_zero\<lparr>next_resource_id := 0xFFFFFFFF\<rparr>)))
     = [4294967295, 0]
   \<and> map unat (fst (generate_ids 2 (state_zero\<lparr>next_resource_id := 0xFFFFFFFF\<rparr>)))
     \<noteq> [4294967295, 4294967295 + 1]
   \<and> \<not> distinct (fst (generate_ids (2 ^ 32 + 1) state_zero))"
proof -
  have u: "[0..<2] = [0, Suc 0]"
    by (simp add: upt_rec)
  have a: "map unat (fst (generate_ids 2 (state_zero\<lparr>next_resource_id := 0xFFFFFFFF\<rparr>)))
     = [4294967295, 0]"
    unfolding generate_ids_eq fst_conv u by simp
  then have b: "map unat (fst (generate_ids 2 (state_zero\<lparr>next_resource_id := 0xFFFFFFFF\<rparr>)))
     \<noteq> [4294967295, 4294967295 + 1]"
    by (simp only:) simp
  have c: "\<not> distinct (fst (generate_ids (2 ^ 32 + 1) state_zero))"
    unfolding generate_ids_eq fst_conv by (rule ids_repeat) simp
  from a b c show ?thesis
    by (intro conjI)
qed

section \<open>Fail-fast transport\<close>

lemma those_length: "those xs = Some ys \<Longrightarrow> length ys = length xs"
proof (induction xs arbitrary: ys)
  case Nil
  then show ?case by simp
next
  case (Cons x xs)
  then show ?case
    by (cases x; cases "those xs") auto
qed

lemma list_all_butlast: "list_all P xs \<Longrightarrow> list_all P (butlast xs)"
  by (induction xs) auto

lemma fail_fast_FATAL_ERROR:
  "list_all complete (trace w) \<Longrightarrow> err w = errs \<Longrightarrow> fail_fast errs (FATAL_ERROR w msg)"
  by (simp add: FATAL_ERROR_def list_all_butlast)

lemma fail_fast_fatal_write:
  assumes "list_all complete (trace w)" and "err w = errs"
  shows "fail_fast errs (fatal_write e w fd buf count)"
proof (cases "length buf < count")
  case True
  then show ?thesis
    using assms by (simp add: fatal_write_def)
next
  case False
  show ?thesis
  proof (cases "those (take count buf)")
    case None
    then show ?thesis
      using assms False by (simp add: fatal_write_def)
  next
    case (Some bytes)
    then have "length bytes = count"
      using False those_length [OF Some] by simp
    then show ?thesis
      using assms False Some by (simp add: fatal_write_def FATAL_ERROR_def Let_def)
  qed
qed

lemma fail_fast_fatal_read:
  assumes "list_all complete (trace w)" and "err w = errs"
  shows "fail_fast errs (fatal_read e w fd count)"
  using assms by (simp add: fatal_read_def FATAL_ERROR_def Let_def split: prod.splits)

lemma fail_fast_and_then:
  assumes "fail_fast errs m"
    and "\<And>x w'. list_all complete (trace w') \<Longrightarrow> err w' = errs \<Longrightarrow> fail_fast errs (f x w')"
  shows "fail_fast errs (and_then m f)"
  using assms by (cases m) auto

lemma fail_fast_init_gc:
  assumes "list_all complete (trace w)" and "err w = errs"
  shows "fail_fast errs (init_gc e w state value_mask value_list)"
  using assms unfolding init_gc_def Let_def
  by (auto split: option.splits prod.splits intro!: fail_fast_and_then fail_fast_fatal_write)

lemma fail_fast_init_window:
  assumes "list_all complete (trace wo)" and "err wo = errs"
  shows "fail_fast errs (init_window e wo state x y w h window_parent visual value_mask value_list)"
  using assms unfolding init_window_def Let_def
  by (auto split: option.splits prod.splits intro!: fail_fast_and_then fail_fast_fatal_write)

lemma fail_fast_map_window:
  assumes "list_all complete (trace w)" and "err w = errs"
  shows "fail_fast errs (map_window e w state)"
  using assms unfolding map_window_def
  by (auto split: option.splits intro!: fail_fast_and_then fail_fast_fatal_write)

lemma fail_fast_x11_init:
  assumes "list_all complete (trace w)" and "err w = errs"
  shows "fail_fast errs (x11_init e w state)"
  using assms unfolding x11_init_def Let_def
  by (auto split: option.splits
      intro!: fail_fast_and_then fail_fast_fatal_write fail_fast_fatal_read fail_fast_FATAL_ERROR)

lemma trace_idle: "trace (idle n w) = trace w"
  by (induction n arbitrary: w) simp_all

lemma err_idle: "err (idle n w) = err w"
  by (induction n arbitrary: w) simp_all

lemma fail_fast_main:
  assumes "list_all complete (trace w)" and "err w = errs"
  shows "fail_fast errs (main e w n)"
  using assms unfolding main_def
  by (auto split: option.splits simp: trace_idle err_idle
      intro!: fail_fast_and_then fail_fast_x11_init fail_fast_init_gc fail_fast_init_window
        fail_fast_map_window)


lemma size_t_mismatch:
  assumes "- (2 ^ 63) \<le> r" and "r < 2 ^ 63" and "count < 2 ^ 63" and "r \<noteq> int count"
  shows "size_t_of_ssize_t r \<noteq> count"
proof (cases "0 \<le> r")
  case True
  then have "r mod 2 ^ 64 = r"
    using assms(2) by simp
  then show ?thesis
    using True assms(4) by (auto simp: size_t_of_ssize_t_def)
next
  case False
  have "r mod 2 ^ 64 = (r + 2 ^ 64) mod 2 ^ 64"
    by simp
  also have "\<dots> = r + 2 ^ 64"
    using False assms(1) by (intro mod_pos_pos_trivial) simp_all
  finally have "nat (r mod 2 ^ 64) = nat (r + 2 ^ 64)"
    by simp
  moreover have "int count < r + 2 ^ 64"
    using assms(1,3) by simp
  ultimately show ?thesis
    by (auto simp: size_t_of_ssize_t_def)
qed

lemma recvfrom_range:
  assumes "recvfrom e k count = (r, bytes)" and "count < 2 ^ 63"
  shows "- (2 ^ 63) \<le> r \<and> r < 2 ^ 63"
proof (cases "recv_data e k")
  case None
  then show ?thesis
    using assms by (simp add: recvfrom_def)
next
  case (Some d)
  then have "r = int (min (length d) count)"
    using assms by (auto simp: recvfrom_def)
  then show ?thesis
    using assms(2) by auto
qed

lemma main_short_write:
  "main short_env world_empty n =
     Exited \<lparr>trace = [Write 3 [108, 0, 11, 0, 0, 0, 18, 0, 16, 0, 0, 0] 11],
             err = [''Failed to write.''], slept = 0\<rparr> (- 1)"
  by (simp add: main_def x11_init_def short_env_def example_env_def world_empty_def state_zero_def
      Let_def fatal_write_def FATAL_ERROR_def size_t_of_ssize_t_def connection_request_bytes_def
      sizeof_connection_request_t_def le16_def)

lemma main_short_read:
  "main short_read_env world_empty n =
     Exited \<lparr>trace = [Write 3 [108, 0, 11, 0, 0, 0, 18, 0, 16, 0, 0, 0] 12,
                      Write 3 [77, 73, 84, 45, 77, 65, 71, 73, 67, 45, 67, 79, 79, 75, 73, 69,
                               45, 49, 0, 0] 20,
                      Write 3 [1, 2, 3, 4, 5, 6, 7, 8, 9, 10, 11, 12, 13, 14, 15, 16] 16,
                      Recvfrom 3 8 7 [1, 0, 11, 0, 0, 0, 19]],
             err = [''Failed to read.''], slept = 0\<rparr> (- 1)"
  by (simp add: main_def x11_init_def short_read_env_def example_env_def world_empty_def
      state_zero_def Let_def fatal_write_def fatal_read_def recvfrom_def FATAL_ERROR_def
      size_t_of_ssize_t_def connection_request_bytes_def sizeof_connection_request_t_def
      sizeof_connection_reply_header_t_def le16_def auth_name_literal_def example_cookie_def
      example_header_def)

text \<open>
  Claim C8. When a \<^verbatim>\<open>write\<close> or a \<^verbatim>\<open>recvfrom\<close> on the transport returns a count
  different from the one requested (the returned value being an \<^verbatim>\<open>ssize_t\<close>, the
  requested one at most \<open>2 ^ 63 - 1\<close>), \<^verbatim>\<open>fatal_write\<close> and \<^verbatim>\<open>fatal_read\<close> make no
  second call: they print one line and call \<^verbatim>\<open>exit(-1)\<close>, status 255. Nothing runs after
  an exit. For the whole program: in every run of \<^verbatim>\<open>main\<close> only the last transport
  call can be incomplete, and when it is, the process has exited with -1 having printed
  exactly the one line of the primitive.
\<close>

theorem fatal_on_mismatch:
  "(count \<le> length buf \<longrightarrow> those (take count buf) = Some bytes \<longrightarrow>
      write_ret e (length (trace w)) count = r \<longrightarrow>
      - (2 ^ 63) \<le> r \<longrightarrow> r < 2 ^ 63 \<longrightarrow> count < 2 ^ 63 \<longrightarrow> r \<noteq> int count \<longrightarrow>
      fatal_write e w fd buf count =
        Exited (w\<lparr>trace := trace w @ [Write fd bytes r],
                  err := err w @ [''Failed to write.'']\<rparr>) (- 1))
   \<and> (recvfrom e (length (trace w)) count = (r', data) \<longrightarrow> count < 2 ^ 63 \<longrightarrow>
        r' \<noteq> int count \<longrightarrow>
      fatal_read e w fd count =
        Exited (w\<lparr>trace := trace w @ [Recvfrom fd count r' data],
                  err := err w @ [''Failed to read.'']\<rparr>) (- 1))
   \<and> exit_status (- 1) = 255
   \<and> and_then (Exited w c) f = Exited w c
   \<and> (list_all complete (trace w) \<longrightarrow>
        list_all complete (butlast (trace (world_of (main e w n))))
        \<and> (\<not> list_all complete (trace (world_of (main e w n))) \<longrightarrow>
             (\<exists>w' msg. main e w n = Exited w' (- 1) \<and> err w' = err w @ [msg]
                       \<and> (msg = ''Failed to write.'' \<or> msg = ''Failed to read.''))))"
proof (intro conjI impI)
  assume "count \<le> length buf" and "those (take count buf) = Some bytes"
    and "write_ret e (length (trace w)) count = r"
    and "- (2 ^ 63) \<le> r" and "r < 2 ^ 63" and "count < 2 ^ 63" and "r \<noteq> int count"
  then show "fatal_write e w fd buf count =
        Exited (w\<lparr>trace := trace w @ [Write fd bytes r],
                  err := err w @ [''Failed to write.'']\<rparr>) (- 1)"
    using size_t_mismatch [of r count] by (simp add: fatal_write_def FATAL_ERROR_def)
next
  assume rv: "recvfrom e (length (trace w)) count = (r', data)" and c: "count < 2 ^ 63"
    and ne: "r' \<noteq> int count"
  from recvfrom_range [OF rv c] c ne have "size_t_of_ssize_t r' \<noteq> count"
    by (intro size_t_mismatch) simp_all
  then show "fatal_read e w fd count =
        Exited (w\<lparr>trace := trace w @ [Recvfrom fd count r' data],
                  err := err w @ [''Failed to read.'']\<rparr>) (- 1)"
    using rv by (simp add: fatal_read_def FATAL_ERROR_def)
next
  show "exit_status (- 1) = 255"
    by (simp add: exit_status_def)
next
  show "and_then (Exited w c) f = Exited w c"
    by simp
next
  assume ok: "list_all complete (trace w)"
  then have ff: "fail_fast (err w) (main e w n)"
    by (intro fail_fast_main) simp_all
  then show "list_all complete (butlast (trace (world_of (main e w n))))"
    by (cases "main e w n") (simp_all add: list_all_butlast)
  show "\<exists>w' msg. main e w n = Exited w' (- 1) \<and> err w' = err w @ [msg]
                       \<and> (msg = ''Failed to write.'' \<or> msg = ''Failed to read.'')"
    if "\<not> list_all complete (trace (world_of (main e w n)))"
    using ff that by (cases "main e w n") auto
qed

text \<open>
  A kernel that takes one byte less than asked, and a server that sends seven bytes of
  the eight-byte header: the run ends at that call.
\<close>

theorem fatal_on_mismatch_witness:
  "16 \<le> length (map Some example_cookie)
   \<and> those (take 16 (map Some example_cookie)) = Some example_cookie
   \<and> write_ret short_env (length (trace world_empty)) 16 = 15
   \<and> - (2 ^ 63) \<le> (15 :: int) \<and> (15 :: int) < 2 ^ 63 \<and> (16 :: nat) < 2 ^ 63
   \<and> (15 :: int) \<noteq> int 16
   \<and> fatal_write short_env world_empty 3 (map Some example_cookie) 16 =
     Exited \<lparr>trace = [Write 3 example_cookie 15], err = [''Failed to write.''], slept = 0\<rparr> (- 1)
   \<and> recvfrom short_read_env
        (length (trace (world_empty\<lparr>trace := [Write 3 [] 0, Write 3 [] 0, Write 3 [] 0]\<rparr>))) 8
       = (7, [1, 0, 11, 0, 0, 0, 19])
   \<and> (8 :: nat) < 2 ^ 63 \<and> (7 :: int) \<noteq> int 8
   \<and> fatal_read short_read_env (world_empty\<lparr>trace := [Write 3 [] 0, Write 3 [] 0, Write 3 [] 0]\<rparr>)
        3 8 =
     Exited \<lparr>trace = [Write 3 [] 0, Write 3 [] 0, Write 3 [] 0,
                      Recvfrom 3 8 7 [1, 0, 11, 0, 0, 0, 19]],
             err = [''Failed to read.''], slept = 0\<rparr> (- 1)
   \<and> list_all complete (trace world_empty)
   \<and> \<not> list_all complete (trace (world_of (main short_env world_empty 5)))
   \<and> (\<exists>w' msg. main short_env world_empty 5 = Exited w' (- 1)
          \<and> err w' = err world_empty @ [msg]
          \<and> (msg = ''Failed to write.'' \<or> msg = ''Failed to read.''))
   \<and> main short_env world_empty 5 =
     Exited \<lparr>trace = [Write 3 [108, 0, 11, 0, 0, 0, 18, 0, 16, 0, 0, 0] 11],
             err = [''Failed to write.''], slept = 0\<rparr> (- 1)
   \<and> main short_read_env world_empty 5 =
     Exited \<lparr>trace = [Write 3 [108, 0, 11, 0, 0, 0, 18, 0, 16, 0, 0, 0] 12,
                      Write 3 [77, 73, 84, 45, 77, 65, 71, 73, 67, 45, 67, 79, 79, 75, 73, 69,
                               45, 49, 0, 0] 20,
                      Write 3 [1, 2, 3, 4, 5, 6, 7, 8, 9, 10, 11, 12, 13, 14, 15, 16] 16,
                      Recvfrom 3 8 7 [1, 0, 11, 0, 0, 0, 19]],
             err = [''Failed to read.''], slept = 0\<rparr> (- 1)"
proof -
  let ?w3 = "world_empty\<lparr>trace := [Write 3 [] 0, Write 3 [] 0, Write 3 [] 0]\<rparr>"
  have h1: "16 \<le> length (map Some example_cookie)"
    by (simp add: example_cookie_def)
  have h2: "those (take 16 (map Some example_cookie)) = Some example_cookie"
    using those_map_Some [of example_cookie] by (simp add: example_cookie_def)
  have h3: "write_ret short_env (length (trace world_empty)) 16 = 15"
    by (simp add: short_env_def)
  have h4: "- (2 ^ 63) \<le> (15 :: int)" "(15 :: int) < 2 ^ 63" "(16 :: nat) < 2 ^ 63"
    "(15 :: int) \<noteq> int 16"
    by simp_all
  have h5: "recvfrom short_read_env (length (trace ?w3)) 8 = (7, [1, 0, 11, 0, 0, 0, 19])"
    by (simp add: recvfrom_def short_read_env_def example_header_def world_empty_def)
  have h6: "(8 :: nat) < 2 ^ 63" "(7 :: int) \<noteq> int 8"
    by simp_all
  have h7: "list_all complete (trace world_empty)"
    by (simp add: world_empty_def)
  have h8: "\<not> list_all complete (trace (world_of (main short_env world_empty 5)))"
    by (simp add: main_short_write size_t_of_ssize_t_def)
  note t = fatal_on_mismatch [where count = 16 and buf = "map Some example_cookie"
      and bytes = example_cookie and e = short_env and w = world_empty and r = 15 and fd = 3
      and r' = 7 and data = "[1, 0, 11, 0, 0, 0, 19]" and n = 5]
  from t h1 h2 h3 h4
  have "fatal_write short_env world_empty 3 (map Some example_cookie) 16 =
     Exited (world_empty\<lparr>trace := trace world_empty @ [Write 3 example_cookie 15],
                  err := err world_empty @ [''Failed to write.'']\<rparr>) (- 1)"
    by blast
  then have a: "fatal_write short_env world_empty 3 (map Some example_cookie) 16 =
     Exited \<lparr>trace = [Write 3 example_cookie 15], err = [''Failed to write.''], slept = 0\<rparr> (- 1)"
    by (simp add: world_empty_def)
  from t h7 h8
  have c: "\<exists>w' msg. main short_env world_empty 5 = Exited w' (- 1)
          \<and> err w' = err world_empty @ [msg]
          \<and> (msg = ''Failed to write.'' \<or> msg = ''Failed to read.'')"
    by blast
  note t' = fatal_on_mismatch [where count = 8 and e = short_read_env and w = ?w3
      and r' = 7 and data = "[1, 0, 11, 0, 0, 0, 19]" and fd = 3]
  from t' h5 h6
  have "fatal_read short_read_env ?w3 3 8 =
     Exited (?w3\<lparr>trace := trace ?w3 @ [Recvfrom 3 8 7 [1, 0, 11, 0, 0, 0, 19]],
                  err := err ?w3 @ [''Failed to read.'']\<rparr>) (- 1)"
    by blast
  then have b: "fatal_read short_read_env ?w3 3 8 =
     Exited \<lparr>trace = [Write 3 [] 0, Write 3 [] 0, Write 3 [] 0,
                      Recvfrom 3 8 7 [1, 0, 11, 0, 0, 0, 19]],
             err = [''Failed to read.''], slept = 0\<rparr> (- 1)"
    by (simp add: world_empty_def)
  from h1 h2 h3 h4 a h5 h6 b h7 h8 c main_short_write [of 5] main_short_read [of 5]
  show ?thesis
    by (intro conjI)
qed

section \<open>The connection bootstrap\<close>

lemma size_t_of_int: "c < 2 ^ 64 \<Longrightarrow> size_t_of_ssize_t (int c) = c"
  by (simp add: size_t_of_ssize_t_def)

lemma fatal_write_accepted:
  assumes "those (take count buf) = Some bytes" and "count \<le> length buf"
    and "write_ret e (length (trace w)) count = int count" and "count < 2 ^ 64"
  shows "fatal_write e w fd buf count =
           Returned () (w\<lparr>trace := trace w @ [Write fd bytes (int count)]\<rparr>)"
  using assms by (simp add: fatal_write_def size_t_of_int)

lemma fatal_read_delivered:
  assumes "recv_data e (length (trace w)) = Some d" and "count \<le> length d"
    and "count < 2 ^ 64"
  shows "fatal_read e w fd count =
           Returned (take count d)
             (w\<lparr>trace := trace w @ [Recvfrom fd count (int count) (take count d)]\<rparr>)"
  using assms by (simp add: fatal_read_def recvfrom_def size_t_of_int min_def)

lemma sizeof_values:
  "sizeof_connection_request_t = 12" "sizeof_connection_reply_header_t = 8"
  "vendor_string_offset = 32" "sizeof_pixmap_format_t = 8"
  by (simp_all add: sizeof_connection_request_t_def sizeof_connection_reply_header_t_def
      vendor_string_offset_def sizeof_pixmap_format_t_def)

lemma request_bytes:
  "connection_request_bytes
     \<lparr>order = 108, pad1 = 0, major_version = 11, minor_version = 0,
      auth_proto_name_len = 18, auth_proto_data_len = 16, pad2 = 0\<rparr>
   = [108, 0, 11, 0, 0, 0, 18, 0, 16, 0, 0, 0]"
  by (simp add: connection_request_bytes_def le16_def)

lemma auth_name_bytes:
  "take 20 auth_name_literal = map of_char ''MIT-MAGIC-COOKIE-1'' @ [0, 0]"
  by (simp add: auth_name_literal_def)

lemma cookie_bytes:
  assumes "16 \<le> length bs"
  shows "those (take 16 (drop (length bs - 16) (map Some bs @ replicate m None)))
         = Some (drop (length bs - 16) bs)"
proof -
  have "take 16 (drop (length bs - 16) (map Some bs @ replicate m None))
        = map Some (drop (length bs - 16) bs)"
    using assms by (simp add: drop_map)
  then show ?thesis
    by (simp only: those_map_Some)
qed

lemma x11_init_handshake:
  assumes hs: "handshake_accepted e w contents" and len: "16 \<le> length contents"
  shows "x11_init e w state =
     and_then (fatal_read e
                 (w\<lparr>trace := trace w @
                    [Write (socket_ret e) [108, 0, 11, 0, 0, 0, 18, 0, 16, 0, 0, 0] 12,
                     Write (socket_ret e) (map of_char ''MIT-MAGIC-COOKIE-1'' @ [0, 0]) 20,
                     Write (socket_ret e)
                       (drop (length (take 4096 contents) - 16) (take 4096 contents)) 16]\<rparr>)
                 (socket_ret e) sizeof_connection_reply_header_t)
       (\<lambda>header w.
          let state = state\<lparr>socket_fd := socket_ret e,
                             connection_reply_header := connection_reply_header_of header\<rparr> in
          if success (connection_reply_header state) = 0
          then FATAL_ERROR w ''Connection reply indicated failure.''
          else
          and_then (fatal_read e w (socket_fd state)
                      (unat (len (connection_reply_header state)) * 4))
          (\<lambda>body w.
          let state = state\<lparr>connection_reply_success_body := Some body\<rparr> in
          case vendor_len body of
            None \<Rightarrow> Undefined w
          | Some vl \<Rightarrow>
          (let state = state\<lparr>pixmap_formats := Body (vendor_string_offset + unat vl)\<rparr> in
          case num_pixmap_formats body of
            None \<Rightarrow> Undefined w
          | Some npf \<Rightarrow>
          (let state = state\<lparr>screens :=
                        Body (vendor_string_offset + unat vl + unat npf * sizeof_pixmap_format_t)\<rparr>
          in
          case id_base body of
            None \<Rightarrow> Undefined w
          | Some base \<Rightarrow> Returned (state\<lparr>next_resource_id := base\<rparr>) w))))"
proof -
  let ?bs = "take 4096 contents"
  let ?fd = "socket_ret e"
  let ?w1 = "w\<lparr>trace := trace w @ [Write ?fd [108, 0, 11, 0, 0, 0, 18, 0, 16, 0, 0, 0] 12]\<rparr>"
  let ?w2 = "?w1\<lparr>trace := trace ?w1 @
               [Write ?fd (map of_char ''MIT-MAGIC-COOKIE-1'' @ [0, 0]) 20]\<rparr>"
  let ?w3 = "?w2\<lparr>trace := trace ?w2 @ [Write ?fd (drop (length ?bs - 16) ?bs) 16]\<rparr>"
  have l16: "16 \<le> length ?bs"
    using len by simp
  have w1: "fatal_write e w ?fd
              (map Some (connection_request_bytes
                 \<lparr>order = of_char CHR ''l'', pad1 = 0, major_version = 11, minor_version = 0,
                  auth_proto_name_len = 18, auth_proto_data_len = 16, pad2 = 0\<rparr>))
              sizeof_connection_request_t = Returned () ?w1"
    using hs fatal_write_accepted [of 12 "map Some [108, 0, 11, 0, 0, 0, 18, 0, 16, 0, 0, 0]"
        "[108, 0, 11, 0, 0, 0, 18, 0, 16, 0, 0, 0]" e w ?fd]
    by (simp add: request_bytes sizeof_values handshake_accepted_def)
  have w2: "fatal_write e ?w1 ?fd (map Some auth_name_literal) 20 = Returned () ?w2"
    using hs fatal_write_accepted [of 20 "map Some auth_name_literal"
        "map of_char ''MIT-MAGIC-COOKIE-1'' @ [0, 0]" e ?w1 ?fd]
    by (simp add: handshake_accepted_def auth_name_literal_def)
  have w3: "fatal_write e ?w2 ?fd
              (drop (length ?bs - 16) (map Some ?bs @ replicate (4096 - length ?bs) None)) 16
            = Returned () ?w3"
    using hs l16 cookie_bytes [OF l16, of "4096 - length ?bs"]
      fatal_write_accepted [of 16
        "drop (length ?bs - 16) (map Some ?bs @ replicate (4096 - length ?bs) None)"
        "drop (length ?bs - 16) ?bs" e ?w2 ?fd]
    by (simp add: handshake_accepted_def del: length_take take_all_iff)
  have pre: "\<not> socket_ret e < 0" "\<not> connect_ret e < 0" "xauth_file e = Some contents"
      "\<not> length ?bs < 16" "\<not> int (length ?bs) < 0"
    using hs l16 by (simp_all add: handshake_accepted_def)
  have fd: "socket_fd (state\<lparr>socket_fd := ?fd\<rparr>) = ?fd"
    by simp
  have "x11_init e w state =
     and_then (fatal_read e ?w3 ?fd sizeof_connection_reply_header_t)
       (\<lambda>header w.
          let state = state\<lparr>socket_fd := socket_ret e,
                             connection_reply_header := connection_reply_header_of header\<rparr> in
          if success (connection_reply_header state) = 0
          then FATAL_ERROR w ''Connection reply indicated failure.''
          else
          and_then (fatal_read e w (socket_fd state)
                      (unat (len (connection_reply_header state)) * 4))
          (\<lambda>body w.
          let state = state\<lparr>connection_reply_success_body := Some body\<rparr> in
          case vendor_len body of
            None \<Rightarrow> Undefined w
          | Some vl \<Rightarrow>
          (let state = state\<lparr>pixmap_formats := Body (vendor_string_offset + unat vl)\<rparr> in
          case num_pixmap_formats body of
            None \<Rightarrow> Undefined w
          | Some npf \<Rightarrow>
          (let state = state\<lparr>screens :=
                        Body (vendor_string_offset + unat vl + unat npf * sizeof_pixmap_format_t)\<rparr>
          in
          case id_base body of
            None \<Rightarrow> Undefined w
          | Some base \<Rightarrow> Returned (state\<lparr>next_resource_id := base\<rparr>) w))))"
    by (simp only: x11_init_def Let_def fd)
      (simp only: pre if_False option.case w1 and_then.simps w2 w3)
  then show ?thesis
    by simp
qed


lemma plus_Sucs:
  "n + 3 = Suc (Suc (Suc n))" "n + 4 = Suc (Suc (Suc (Suc n)))"
  "n + 5 = Suc (Suc (Suc (Suc (Suc n))))" "n + 6 = Suc (Suc (Suc (Suc (Suc (Suc n)))))"
  "n + 7 = Suc (Suc (Suc (Suc (Suc (Suc (Suc n))))))"
  by simp_all

lemma x11_init_run:
  assumes hs: "handshake_accepted e w contents" and len: "16 \<le> length contents"
    and reply: "success_reply e w header body"
    and vl: "vendor_len body = Some L" and npf: "num_pixmap_formats body = Some P"
    and base: "id_base body = Some B"
  shows "x11_init e w state =
     Returned
       (state\<lparr>socket_fd := socket_ret e,
              connection_reply_header := connection_reply_header_of header,
              connection_reply_success_body := Some body,
              pixmap_formats := Body (32 + unat L),
              screens := Body (32 + unat L + unat P * 8),
              next_resource_id := B\<rparr>)
       (w\<lparr>trace := trace w @
          [Write (socket_ret e) [108, 0, 11, 0, 0, 0, 18, 0, 16, 0, 0, 0] 12,
           Write (socket_ret e) (map of_char ''MIT-MAGIC-COOKIE-1'' @ [0, 0]) 20,
           Write (socket_ret e)
             (drop (length (take 4096 contents) - 16) (take 4096 contents)) 16,
           Recvfrom (socket_ret e) 8 8 header,
           Recvfrom (socket_ret e) (unat (len (connection_reply_header_of header)) * 4)
             (int (unat (len (connection_reply_header_of header)) * 4)) body]\<rparr>)"
proof -
  let ?fd = "socket_ret e"
  let ?n = "unat (len (connection_reply_header_of header)) * 4"
  let ?w3 = "w\<lparr>trace := trace w @
                    [Write ?fd [108, 0, 11, 0, 0, 0, 18, 0, 16, 0, 0, 0] 12,
                     Write ?fd (map of_char ''MIT-MAGIC-COOKIE-1'' @ [0, 0]) 20,
                     Write ?fd
                       (drop (length (take 4096 contents) - 16) (take 4096 contents)) 16]\<rparr>"
  let ?w4 = "?w3\<lparr>trace := trace ?w3 @ [Recvfrom ?fd 8 8 header]\<rparr>"
  from reply obtain d1 d2 where d1: "recv_data e (length (trace w) + 3) = Some d1"
      "8 \<le> length d1" "header = take 8 d1"
    and ok: "success (connection_reply_header_of header) \<noteq> 0"
    and d2: "recv_data e (length (trace w) + 4) = Some d2" "?n \<le> length d2" "body = take ?n d2"
    unfolding success_reply_def by blast
  have n: "?n < 2 ^ 64"
  proof -
    have "unat (len (connection_reply_header_of header)) < 2 ^ 16"
      using unsigned_less [of "len (connection_reply_header_of header)"] by simp
    then show ?thesis
      by simp
  qed
  have sel: "socket_fd (state\<lparr>socket_fd := ?fd, connection_reply_header := H\<rparr>) = ?fd"
    "connection_reply_header (state\<lparr>socket_fd := ?fd, connection_reply_header := H\<rparr>) = H"
    for H
    by simp_all
  have r1: "fatal_read e ?w3 ?fd sizeof_connection_reply_header_t = Returned header ?w4"
    using d1 fatal_read_delivered [of e ?w3 d1 8 ?fd] by (simp add: sizeof_values plus_Sucs)
  have r2: "fatal_read e ?w4 ?fd ?n =
              Returned body (?w4\<lparr>trace := trace ?w4 @ [Recvfrom ?fd ?n (int ?n) body]\<rparr>)"
    using d2 n fatal_read_delivered [of e ?w4 d2 ?n ?fd] by (simp add: plus_Sucs)
  show ?thesis
    by (simp only: x11_init_handshake [OF hs len] r1 and_then.simps Let_def sel ok
        if_False r2 vl npf base option.case)
      (simp add: sizeof_values)
qed

lemma fatal_read_sent:
  "\<exists>rest. trace (world_of (fatal_read e w fd count)) = trace w @ rest
          \<and> concat (map written rest) = []"
  by (auto simp: fatal_read_def FATAL_ERROR_def Let_def split: prod.splits)

lemma x11_init_tail:
  "\<exists>rest. trace (world_of
      (and_then (fatal_read e w fd n1)
       (\<lambda>header w.
          let state = state\<lparr>socket_fd := fd',
                             connection_reply_header := connection_reply_header_of header\<rparr> in
          if success (connection_reply_header state) = 0
          then FATAL_ERROR w ''Connection reply indicated failure.''
          else
          and_then (fatal_read e w (socket_fd state)
                      (unat (len (connection_reply_header state)) * 4))
          (\<lambda>body w.
          let state = state\<lparr>connection_reply_success_body := Some body\<rparr> in
          case vendor_len body of
            None \<Rightarrow> Undefined w
          | Some vl \<Rightarrow>
          (let state = state\<lparr>pixmap_formats := Body (vendor_string_offset + unat vl)\<rparr> in
          case num_pixmap_formats body of
            None \<Rightarrow> Undefined w
          | Some npf \<Rightarrow>
          (let state = state\<lparr>screens :=
                        Body (vendor_string_offset + unat vl + unat npf * sizeof_pixmap_format_t)\<rparr>
          in
          case id_base body of
            None \<Rightarrow> Undefined w
          | Some base \<Rightarrow> Returned (state\<lparr>next_resource_id := base\<rparr>) w))))))
     = trace w @ rest \<and> concat (map written rest) = []"
  by (auto simp: fatal_read_def FATAL_ERROR_def Let_def split: prod.splits option.splits)


lemma example_handshake_accepted:
  "handshake_accepted example_env world_empty (replicate 20 7 @ example_cookie)"
  by (simp add: handshake_accepted_def example_env_def world_empty_def)

lemma example_header_fields:
  "success (connection_reply_header_of example_header) = 1"
  "len (connection_reply_header_of example_header) = 19"
  by (simp_all add: connection_reply_header_of_def example_header_def rd16_def)

lemma example_success_reply:
  "success_reply example_env world_empty example_header example_body"
  by (simp add: success_reply_def example_header_fields example_env_def world_empty_def)
    (simp add: example_header_def example_body_def)

lemma example_body_fields:
  "vendor_len example_body = Some 4" "num_pixmap_formats example_body = Some 0"
  "num_screens example_body = Some 1" "id_base example_body = Some 0x400000"
  "root_id example_body (32 + unat (4 :: u16)) = Some 100"
  "root_visual_id example_body (32 + unat (4 :: u16)) = Some 200"
  by (simp_all add: vendor_len_def num_pixmap_formats_def num_screens_def id_base_def
      root_id_def root_visual_id_def rd8_def rd16_def rd32_def example_body_def)

lemma x11_init_example:
  "x11_init example_env world_empty state_zero =
     Returned example_state
       \<lparr>trace =
          [Write 3 [108, 0, 11, 0, 0, 0, 18, 0, 16, 0, 0, 0] 12,
           Write 3 [77, 73, 84, 45, 77, 65, 71, 73, 67, 45, 67, 79, 79, 75, 73, 69, 45, 49,
                    0, 0] 20,
           Write 3 [1, 2, 3, 4, 5, 6, 7, 8, 9, 10, 11, 12, 13, 14, 15, 16] 16,
           Recvfrom 3 8 8 example_header,
           Recvfrom 3 76 76 example_body],
        err = [], slept = 0\<rparr>"
proof -
  have l: "16 \<le> length (replicate 20 (7 :: u8) @ example_cookie)"
    by simp
  have "example_state =
      state_zero\<lparr>socket_fd := socket_ret example_env,
              connection_reply_header := connection_reply_header_of example_header,
              connection_reply_success_body := Some example_body,
              pixmap_formats := Body (32 + unat (4 :: u16)),
              screens := Body (32 + unat (4 :: u16) + unat (0 :: u8) * 8),
              next_resource_id := 0x400000\<rparr>"
    by (simp add: example_state_def state_zero_def example_env_def
        connection_reply_header_of_def example_header_def rd16_def)
  then show ?thesis
    using x11_init_run [OF example_handshake_accepted l example_success_reply
        example_body_fields(1,2,4), of state_zero]
    by (simp add: example_header_fields example_env_def world_empty_def example_cookie_def)
qed

lemma pixmap_formats_readable:
  assumes "num_pixmap_formats body = Some P"
  shows "\<exists>B. id_base body = Some B"
  using assms by (simp add: num_pixmap_formats_def id_base_def rd8_def rd32_def split: if_splits)

text \<open>
  Claim C2, as amended. For every credential-file read yielding at least 16 bytes (in a
  run where the socket connects, the file opens and the kernel takes the three writes),
  the bootstrap emits as its handshake exactly 48 bytes, in three writes: the 12-byte
  \<^verbatim>\<open>connection_request_t\<close> (order byte \<^verbatim>\<open>'l'\<close>, one zero pad byte, 16-bit major
  version 11, minor version 0, auth-name length 18, auth-data length 16, two zero pad
  bytes), the 20 bytes \<^verbatim>\<open>MIT-MAGIC-COOKIE-1\<close> and two null bytes, and the final 16
  bytes of the bytes read from the credential file. It writes nothing else.
\<close>

theorem handshake_bytes:
  assumes "handshake_accepted e w contents" and "16 \<le> length contents"
  shows "let bytes_read = take 4096 contents;
             header = [108, 0, 11, 0, 0, 0, 18, 0, 16, 0, 0, 0];
             name = map of_char ''MIT-MAGIC-COOKIE-1'' @ [0, 0];
             cookie = drop (length bytes_read - 16) bytes_read
         in take 3 (drop (length (trace w)) (trace (world_of (x11_init e w state)))) =
              [Write (socket_ret e) header 12, Write (socket_ret e) name 20,
               Write (socket_ret e) cookie 16]
            \<and> sent (world_of (x11_init e w state)) = sent w @ header @ name @ cookie
            \<and> length header = 12 \<and> length name = 20 \<and> length cookie = 16
            \<and> length (header @ name @ cookie) = 48"
proof -
  let ?bs = "take 4096 contents"
  let ?h = "[108, 0, 11, 0, 0, 0, 18, 0, 16, 0, 0, 0] :: u8 list"
  let ?n = "map of_char ''MIT-MAGIC-COOKIE-1'' @ [0, 0] :: u8 list"
  let ?c = "drop (length ?bs - 16) ?bs"
  let ?w3 = "w\<lparr>trace := trace w @
               [Write (socket_ret e) ?h 12, Write (socket_ret e) ?n 20,
                Write (socket_ret e) ?c 16]\<rparr>"
  have l16: "16 \<le> length ?bs"
    using assms(2) by simp
  obtain rest where tr: "trace (world_of (x11_init e w state)) = trace ?w3 @ rest"
    and quiet: "concat (map written rest) = []"
    unfolding x11_init_handshake [OF assms]
    using x11_init_tail [where e = e and w = ?w3 and fd = "socket_ret e"
        and ?n1.0 = sizeof_connection_reply_header_t and state = state and fd' = "socket_ret e"]
    by blast
  have a: "take 3 (drop (length (trace w)) (trace (world_of (x11_init e w state)))) =
      [Write (socket_ret e) ?h 12, Write (socket_ret e) ?n 20, Write (socket_ret e) ?c 16]"
    unfolding tr by simp
  have b: "sent (world_of (x11_init e w state)) = sent w @ ?h @ ?n @ ?c"
    unfolding sent_def tr using quiet by simp
  have c: "length ?c = 16"
    using l16 by simp
  have d: "length ?n = 20" "length ?h = 12"
    by simp_all
  show ?thesis
    unfolding Let_def using a b c d by (simp del: length_take take_all_iff)
qed

text \<open>The example session: 36 bytes are read, the last 16 are the cookie.\<close>

theorem handshake_bytes_witness:
  "handshake_accepted example_env world_empty (replicate 20 7 @ example_cookie)
   \<and> 16 \<le> length (replicate 20 (7 :: u8) @ example_cookie)
   \<and> sent (world_of (x11_init example_env world_empty state_zero)) =
       [108, 0, 11, 0, 0, 0, 18, 0, 16, 0, 0, 0,
        77, 73, 84, 45, 77, 65, 71, 73, 67, 45, 67, 79, 79, 75, 73, 69, 45, 49, 0, 0,
        1, 2, 3, 4, 5, 6, 7, 8, 9, 10, 11, 12, 13, 14, 15, 16]"
proof -
  have l: "16 \<le> length (replicate 20 (7 :: u8) @ example_cookie)"
    by simp
  have "sent world_empty = []"
    by (simp add: sent_def world_empty_def)
  then show ?thesis
    using l example_handshake_accepted
      handshake_bytes [OF example_handshake_accepted l, of state_zero]
    by (simp add: Let_def example_cookie_def)
qed

text \<open>
  Claim C2 as stated fails: in the example session the credential read yields 36 bytes,
  and the handshake is 48 bytes long, not 44, its first write being the 12 bytes of the
  packed \<^verbatim>\<open>connection_request_t\<close>, not 8.
\<close>

theorem handshake_is_48_bytes:
  "xauth_file example_env = Some (replicate 20 7 @ example_cookie)
   \<and> length (replicate 20 (7 :: u8) @ example_cookie) = 36
   \<and> length (sent (world_of (x11_init example_env world_empty state_zero))) = 48
   \<and> length (sent (world_of (x11_init example_env world_empty state_zero))) \<noteq> 44
   \<and> hd (trace (world_of (x11_init example_env world_empty state_zero))) =
       Write 3 [108, 0, 11, 0, 0, 0, 18, 0, 16, 0, 0, 0] 12
   \<and> sizeof_connection_request_t = 12"
proof -
  have a: "xauth_file example_env = Some (replicate 20 7 @ example_cookie)"
    by (simp add: example_env_def)
  have b: "length (replicate 20 (7 :: u8) @ example_cookie) = 36"
    by (simp add: example_cookie_def)
  have c: "length (sent (world_of (x11_init example_env world_empty state_zero))) = 48"
    by (simp add: x11_init_example sent_def)
  then have d: "length (sent (world_of (x11_init example_env world_empty state_zero))) \<noteq> 44"
    by simp
  have e: "hd (trace (world_of (x11_init example_env world_empty state_zero))) =
       Write 3 [108, 0, 11, 0, 0, 0, 18, 0, 16, 0, 0, 0] 12"
    by (simp add: x11_init_example)
  from a b c d e sizeof_values(1) show ?thesis
    by (intro conjI)
qed

section \<open>Reply parsing\<close>

text \<open>
  Claim C3. For every success-reply body with vendor-string length \<open>L\<close>, pixmap-format
  count \<open>P\<close> and screen count \<open>S\<close>, \<^verbatim>\<open>x11_init\<close> returns with the reply body in the
  session state, \<^verbatim>\<open>pixmap_formats\<close> pointing \<open>L\<close> bytes past the 32-byte fixed prefix
  of the body, and \<^verbatim>\<open>screens\<close> pointing \<open>P * 8\<close> bytes past that.
\<close>

theorem reply_views:
  assumes "handshake_accepted e w contents" and "16 \<le> length contents"
    and "success_reply e w header body"
    and "vendor_len body = Some L" and "num_pixmap_formats body = Some P"
    and "num_screens body = Some S"
  shows "\<exists>s' w'. x11_init e w state = Returned s' w'
           \<and> connection_reply_success_body s' = Some body
           \<and> pixmap_formats s' = Body (32 + unat L)
           \<and> screens s' = Body (32 + unat L + unat P * 8)"
proof -
  obtain B where "id_base body = Some B"
    using pixmap_formats_readable [OF assms(5)] by blast
  from x11_init_run [OF assms(1-5) this, of state] show ?thesis
    by simp
qed

text \<open>The example reply: \<open>L = 4\<close>, \<open>P = 0\<close>, \<open>S = 1\<close>; both views are at offset 36.\<close>

theorem reply_views_witness:
  "handshake_accepted example_env world_empty (replicate 20 7 @ example_cookie)
   \<and> 16 \<le> length (replicate 20 (7 :: u8) @ example_cookie)
   \<and> success_reply example_env world_empty example_header example_body
   \<and> vendor_len example_body = Some 4 \<and> num_pixmap_formats example_body = Some 0
   \<and> num_screens example_body = Some 1
   \<and> (\<exists>s' w'. x11_init example_env world_empty state_zero = Returned s' w'
           \<and> connection_reply_success_body s' = Some example_body
           \<and> pixmap_formats s' = Body 36 \<and> screens s' = Body 36)"
proof -
  have l: "16 \<le> length (replicate 20 (7 :: u8) @ example_cookie)"
    by simp
  from reply_views [OF example_handshake_accepted l example_success_reply
      example_body_fields(1,2,3), of state_zero]
  have "\<exists>s' w'. x11_init example_env world_empty state_zero = Returned s' w'
           \<and> connection_reply_success_body s' = Some example_body
           \<and> pixmap_formats s' = Body 36 \<and> screens s' = Body 36"
    by simp
  with example_handshake_accepted l example_success_reply example_body_fields(1,2,3)
  show ?thesis
    by (intro conjI)
qed

section \<open>The driver\<close>

lemma idle_eq: "idle n w = w\<lparr>slept := slept w + n\<rparr>"
  by (induction n arbitrary: w) simp_all

lemma popcount_values: "popcount 65536 = 1" "popcount 2 = 1"
  using popcount_gc popcount_cw
  by (simp_all add: X11_GC_GRAPHICS_EXPOSURES_def X11_CW_BACK_PIXEL_def)

lemma word0_values:
  "X11_OPCODE_CREATE_GC OR push_bit 16 (of_nat (4 + popcount X11_GC_GRAPHICS_EXPOSURES))
     = (0x00050010 :: u32)"
  "X11_OPCODE_CREATE_WINDOW OR push_bit 16 (of_nat (8 + popcount X11_CW_BACK_PIXEL))
     = (0x00090001 :: u32)"
  "(ucast (0 :: u16) :: u32) OR push_bit 16 (ucast (0 :: u16)) = 0"
  "(ucast (320 :: u16) :: u32) OR push_bit 16 (ucast (240 :: u16)) = 0x00F00140"
  "X11_GC_GRAPHICS_EXPOSURES = 0x10000" "X11_CW_BACK_PIXEL = 2"
  "X11_EXPOSURES_NOT_ALLOWED = 0"
  by (simp_all add: popcount_values X11_OPCODE_CREATE_GC_def
      X11_OPCODE_CREATE_WINDOW_def X11_GC_GRAPHICS_EXPOSURES_def X11_CW_BACK_PIXEL_def
      X11_EXPOSURES_NOT_ALLOWED_def)

lemma main_run:
  assumes hs: "handshake_accepted e w contents" and len: "16 \<le> length contents"
    and reply: "success_reply e w header body" and rq: "requests_accepted e w"
    and vl: "vendor_len body = Some L" and npf: "num_pixmap_formats body = Some 0"
    and base: "id_base body = Some B"
    and root: "root_id body (32 + unat L) = Some R"
    and visual: "root_visual_id body (32 + unat L) = Some V"
  shows "main e w n =
     Idling
       (state_zero\<lparr>socket_fd := socket_ret e,
              connection_reply_header := connection_reply_header_of header,
              connection_reply_success_body := Some body,
              pixmap_formats := Body (32 + unat L),
              screens := Body (32 + unat L),
              next_resource_id := B + 2,
              graphics_context_id := B,
              window_id := B + 1\<rparr>)
       (w\<lparr>trace := trace w @
          [Write (socket_ret e) [108, 0, 11, 0, 0, 0, 18, 0, 16, 0, 0, 0] 12,
           Write (socket_ret e) (map of_char ''MIT-MAGIC-COOKIE-1'' @ [0, 0]) 20,
           Write (socket_ret e)
             (drop (length (take 4096 contents) - 16) (take 4096 contents)) 16,
           Recvfrom (socket_ret e) 8 8 header,
           Recvfrom (socket_ret e) (unat (len (connection_reply_header_of header)) * 4)
             (int (unat (len (connection_reply_header_of header)) * 4)) body,
           Write (socket_ret e) (concat (map le32 [0x00050010, B, R, 0x10000, 0])) 20,
           Write (socket_ret e)
             (concat (map le32 [0x00090001, B + 1, R, 0, 0x00F00140, 0, V, 2, 0xFF00FF])) 36,
           Write (socket_ret e) (concat (map le32 [0x00020008, B + 1])) 8],
          slept := slept w + n\<rparr>)"
proof -
  let ?fd = "socket_ret e"
  let ?s1 = "state_zero\<lparr>socket_fd := ?fd,
              connection_reply_header := connection_reply_header_of header,
              connection_reply_success_body := Some body,
              pixmap_formats := Body (32 + unat L),
              screens := Body (32 + unat L + unat (0 :: u8) * 8),
              next_resource_id := B\<rparr>"
  let ?t1 = "trace w @
          [Write ?fd [108, 0, 11, 0, 0, 0, 18, 0, 16, 0, 0, 0] 12,
           Write ?fd (map of_char ''MIT-MAGIC-COOKIE-1'' @ [0, 0]) 20,
           Write ?fd (drop (length (take 4096 contents) - 16) (take 4096 contents)) 16,
           Recvfrom ?fd 8 8 header,
           Recvfrom ?fd (unat (len (connection_reply_header_of header)) * 4)
             (int (unat (len (connection_reply_header_of header)) * 4)) body]"
  let ?w1 = "w\<lparr>trace := ?t1\<rparr>"
  let ?gc = "Write ?fd (concat (map le32 [0x00050010, B, R, 0x10000, 0])) 20"
  let ?s2 = "?s1\<lparr>next_resource_id := B + 1, graphics_context_id := B\<rparr>"
  let ?w2 = "w\<lparr>trace := ?t1 @ [?gc]\<rparr>"
  let ?win = "Write ?fd
             (concat (map le32 [0x00090001, B + 1, R, 0, 0x00F00140, 0, V, 2, 0xFF00FF])) 36"
  let ?s3 = "?s2\<lparr>next_resource_id := B + 2, window_id := B + 1\<rparr>"
  let ?w3 = "w\<lparr>trace := ?t1 @ [?gc, ?win]\<rparr>"
  let ?map = "Write ?fd (concat (map le32 [0x00020008, B + 1])) 8"
  let ?w4 = "w\<lparr>trace := ?t1 @ [?gc, ?win, ?map]\<rparr>"
  have x: "x11_init e w state_zero = Returned ?s1 ?w1"
    by (rule x11_init_run [OF hs len reply vl npf base])
  have r1: "screens_0_root_id ?s1 = Some R"
    using root by (simp add: screens_0_root_id_def)
  have acc: "write_ret e (length ?t1) 20 = 20" "write_ret e (Suc (length ?t1)) 36 = 36"
    "write_ret e (Suc (Suc (length ?t1))) 8 = 8"
    using rq by (simp_all add: requests_accepted_def plus_Sucs)
  have sz: "size_t_of_ssize_t 20 = 20" "size_t_of_ssize_t 36 = 36" "size_t_of_ssize_t 8 = 8"
    by (simp_all add: size_t_of_ssize_t_def)
  have g: "init_gc e ?w1 ?s1 X11_GC_GRAPHICS_EXPOSURES [X11_EXPOSURES_NOT_ALLOWED] =
             Returned ?s2 ?w2"
  proof -
    have p: "length [X11_EXPOSURES_NOT_ALLOWED] = popcount X11_GC_GRAPHICS_EXPOSURES"
      by (simp add: popcount_gc)
    show ?thesis
      using init_gc_run [OF p r1, of e ?w1] acc(1) sz
      by (simp add: Let_def word0_values generate_id_def popcount_values
          X11_OPCODE_CREATE_GC_def X11_OPCODE_CREATE_WINDOW_def)
  qed
  have r2: "screens_0_root_id ?s2 = Some R" "screens_0_root_visual_id ?s2 = Some V"
    using root visual by (simp_all add: screens_0_root_id_def screens_0_root_visual_id_def)
  have i: "init_window e ?w2 ?s2 0 0 320 240 R V X11_CW_BACK_PIXEL [0xff00ff] =
             Returned ?s3 ?w3"
  proof -
    have p: "length [0xff00ff :: u32] = popcount X11_CW_BACK_PIXEL"
      by (simp add: popcount_cw)
    show ?thesis
      using init_window_run [OF p, where e = e and wo = ?w2 and state = ?s2 and x = 0
          and y = 0 and w = 320 and h = 240 and window_parent = R and visual = V] acc(2) sz
      by (simp add: Let_def word0_values generate_id_def popcount_values
          X11_OPCODE_CREATE_GC_def X11_OPCODE_CREATE_WINDOW_def)
  qed
  have m: "map_window e ?w3 ?s3 = Returned ?s3 ?w4"
    using map_window_run [of e ?w3 ?s3] acc(3) sz by (simp add: Let_def)
  have "main e w n = Idling ?s3 (idle n ?w4)"
    by (simp only: main_def x and_then.simps g r2 option.case i m)
  then show ?thesis
    by (simp add: idle_eq)
qed


lemma example_requests_accepted: "requests_accepted example_env world_empty"
  by (simp add: requests_accepted_def example_env_def)

lemma wire_screens_offset_unpadded:
  assumes "vendor_len body = Some L" and "num_pixmap_formats body = Some P"
    and "unat L mod 4 = 0"
  shows "wire_screens_offset body = Some (32 + unat L + unat P * 8)"
proof -
  have "pad4 (unat L) = unat L"
    using assms(3) unfolding pad4_def by presburger
  then show ?thesis
    using assms(1,2) by (simp add: wire_screens_offset_def)
qed

lemma padded_handshake_accepted:
  "handshake_accepted padded_env world_empty (replicate 20 7 @ example_cookie)"
  by (simp add: handshake_accepted_def padded_env_def example_env_def world_empty_def)

lemma padded_header_fields:
  "success (connection_reply_header_of padded_header) = 1"
  "len (connection_reply_header_of padded_header) = 20"
  by (simp_all add: connection_reply_header_of_def padded_header_def rd16_def)

lemma padded_success_reply:
  "success_reply padded_env world_empty padded_header padded_body"
  by (simp add: success_reply_def padded_header_fields padded_env_def world_empty_def)
    (simp add: padded_header_def padded_body_def)

lemma padded_requests_accepted: "requests_accepted padded_env world_empty"
  by (simp add: requests_accepted_def padded_env_def example_env_def)

lemma padded_body_fields:
  "vendor_len padded_body = Some 5" "num_pixmap_formats padded_body = Some 0"
  "num_screens padded_body = Some 1" "id_base padded_body = Some 0x400000"
  "root_id padded_body 40 = Some 100" "root_visual_id padded_body 40 = Some 200"
  "root_id padded_body (32 + unat (5 :: u16)) = Some 0x64000000"
  "root_visual_id padded_body (32 + unat (5 :: u16)) = Some 0xC8000100"
  by (simp_all add: vendor_len_def num_pixmap_formats_def num_screens_def id_base_def
      root_id_def root_visual_id_def rd8_def rd16_def rd32_def padded_body_def)

lemma padded_wire_offset: "wire_screens_offset padded_body = Some 40"
  by (simp add: wire_screens_offset_def padded_body_fields pad4_def)

lemma wrap_handshake_accepted:
  "handshake_accepted wrap_env world_empty (replicate 20 7 @ example_cookie)"
  by (simp add: handshake_accepted_def wrap_env_def example_env_def world_empty_def)

lemma wrap_body_eq:
  "wrap_body =
     [0, 0, 0, 0,  0xFF, 0xFF, 0xFF, 0xFF,  0xFF, 0xFF, 0x1F, 0,  0, 1, 0, 0,
      4, 0,  0xFF, 0xFF,  1, 0, 0, 0, 32, 32, 8, 255,  0, 0, 0, 0,
      88, 111, 114, 103,
      100, 0, 0, 0,  0, 0, 0, 0,  0, 0, 0, 0,  0, 0, 0, 0,  0, 0, 0, 0,
      0, 4, 0, 3,  0, 0, 0, 0,  1, 0, 1, 0,
      200, 0, 0, 0,  0, 0, 24, 0]"
  by (simp add: wrap_body_def example_body_def)

lemma wrap_success_reply:
  "success_reply wrap_env world_empty example_header wrap_body"
  by (simp add: success_reply_def example_header_fields wrap_env_def world_empty_def)
    (simp add: example_header_def wrap_body_eq)

lemma wrap_requests_accepted: "requests_accepted wrap_env world_empty"
  by (simp add: requests_accepted_def wrap_env_def example_env_def)

lemma wrap_body_fields:
  "vendor_len wrap_body = Some 4" "num_pixmap_formats wrap_body = Some 0"
  "num_screens wrap_body = Some 1" "id_base wrap_body = Some 0xFFFFFFFF"
  "root_id wrap_body (32 + unat (4 :: u16)) = Some 100"
  "root_visual_id wrap_body (32 + unat (4 :: u16)) = Some 200"
  by (simp_all add: vendor_len_def num_pixmap_formats_def num_screens_def id_base_def
      root_id_def root_visual_id_def rd8_def rd16_def rd32_def wrap_body_eq)

lemma example_wire_offset: "wire_screens_offset example_body = Some 36"
  by (simp add: wire_screens_offset_def example_body_fields pad4_def)

text \<open>
  Claim C1, as amended. In every run in which the handshake goes through and the server
  returns a success reply with no pixmap formats and one screen (root window \<open>R\<close>,
  root visual \<open>V\<close>) whose descriptor begins exactly \<^verbatim>\<open>vendor_len\<close> bytes past the
  32-byte fixed prefix of the body, and the kernel takes the requests whole, the driver
  reaches its idle loop having allocated the graphics-context identifier \<open>id_base\<close>
  and the window identifier \<open>id_base + 1\<close> modulo \<open>2 ^ 32\<close>, and having made after
  the handshake and the two reads exactly three writes: the create-GC request for
  drawable \<open>R\<close>, the create-window request for parent \<open>R\<close> and visual \<open>V\<close> at
  (0, 0) with size 320 by 240, and the map-window request for the new window. However
  long it idles, nothing more is sent. The descriptor begins there in every reply of the
  wire format whose vendor length is a multiple of 4, the client adding no padding.
\<close>

theorem end_to_end:
  assumes "handshake_accepted e w contents" and "16 \<le> length contents"
    and "success_reply e w header body" and "requests_accepted e w"
    and "vendor_len body = Some L" and "num_pixmap_formats body = Some 0"
    and "num_screens body = Some 1" and "id_base body = Some B"
    and "root_id body (32 + unat L) = Some R"
    and "root_visual_id body (32 + unat L) = Some V"
  shows "(\<exists>s'. main e w n =
     Idling s'
       (w\<lparr>trace := trace w @
          [Write (socket_ret e) [108, 0, 11, 0, 0, 0, 18, 0, 16, 0, 0, 0] 12,
           Write (socket_ret e) (map of_char ''MIT-MAGIC-COOKIE-1'' @ [0, 0]) 20,
           Write (socket_ret e)
             (drop (length (take 4096 contents) - 16) (take 4096 contents)) 16,
           Recvfrom (socket_ret e) 8 8 header,
           Recvfrom (socket_ret e) (unat (len (connection_reply_header_of header)) * 4)
             (int (unat (len (connection_reply_header_of header)) * 4)) body,
           Write (socket_ret e) (concat (map le32 [0x00050010, B, R, 0x10000, 0])) 20,
           Write (socket_ret e)
             (concat (map le32 [0x00090001, B + 1, R, 0, 0x00F00140, 0, V, 2, 0xFF00FF])) 36,
           Write (socket_ret e) (concat (map le32 [0x00020008, B + 1])) 8],
          slept := slept w + n\<rparr>)
     \<and> graphics_context_id s' = B \<and> window_id s' = B + 1 \<and> next_resource_id s' = B + 2)
   \<and> (unat L mod 4 = 0 \<longrightarrow> wire_screens_offset body = Some (32 + unat L))"
proof (intro conjI impI)
  show "\<exists>s'. main e w n =
     Idling s'
       (w\<lparr>trace := trace w @
          [Write (socket_ret e) [108, 0, 11, 0, 0, 0, 18, 0, 16, 0, 0, 0] 12,
           Write (socket_ret e) (map of_char ''MIT-MAGIC-COOKIE-1'' @ [0, 0]) 20,
           Write (socket_ret e)
             (drop (length (take 4096 contents) - 16) (take 4096 contents)) 16,
           Recvfrom (socket_ret e) 8 8 header,
           Recvfrom (socket_ret e) (unat (len (connection_reply_header_of header)) * 4)
             (int (unat (len (connection_reply_header_of header)) * 4)) body,
           Write (socket_ret e) (concat (map le32 [0x00050010, B, R, 0x10000, 0])) 20,
           Write (socket_ret e)
             (concat (map le32 [0x00090001, B + 1, R, 0, 0x00F00140, 0, V, 2, 0xFF00FF])) 36,
           Write (socket_ret e) (concat (map le32 [0x00020008, B + 1])) 8],
          slept := slept w + n\<rparr>)
     \<and> graphics_context_id s' = B \<and> window_id s' = B + 1 \<and> next_resource_id s' = B + 2"
    using main_run [OF assms(1-6) assms(8-10), of n] by simp
  show "wire_screens_offset body = Some (32 + unat L)" if "unat L mod 4 = 0"
    using wire_screens_offset_unpadded [OF assms(5,6) that] by simp
qed

text \<open>The example session, idling for two rounds.\<close>

theorem end_to_end_witness:
  "handshake_accepted example_env world_empty (replicate 20 7 @ example_cookie)
   \<and> 16 \<le> length (replicate 20 (7 :: u8) @ example_cookie)
   \<and> success_reply example_env world_empty example_header example_body
   \<and> requests_accepted example_env world_empty
   \<and> vendor_len example_body = Some 4 \<and> num_pixmap_formats example_body = Some 0
   \<and> num_screens example_body = Some 1 \<and> id_base example_body = Some 0x400000
   \<and> root_id example_body (32 + unat (4 :: u16)) = Some 100
   \<and> root_visual_id example_body (32 + unat (4 :: u16)) = Some 200
   \<and> unat (4 :: u16) mod 4 = 0
   \<and> wire_screens_offset example_body = Some (32 + unat (4 :: u16))
   \<and> (\<exists>s'. main example_env world_empty 2 =
         Idling s'
           \<lparr>trace =
              [Write 3 [108, 0, 11, 0, 0, 0, 18, 0, 16, 0, 0, 0] 12,
               Write 3 [77, 73, 84, 45, 77, 65, 71, 73, 67, 45, 67, 79, 79, 75, 73, 69, 45,
                        49, 0, 0] 20,
               Write 3 [1, 2, 3, 4, 5, 6, 7, 8, 9, 10, 11, 12, 13, 14, 15, 16] 16,
               Recvfrom 3 8 8 example_header,
               Recvfrom 3 76 76 example_body,
               Write 3 [16, 0, 5, 0,  0, 0, 64, 0,  100, 0, 0, 0,  0, 0, 1, 0,  0, 0, 0, 0] 20,
               Write 3 [1, 0, 9, 0,  1, 0, 64, 0,  100, 0, 0, 0,  0, 0, 0, 0,  64, 1, 240, 0,
                        0, 0, 0, 0,  200, 0, 0, 0,  2, 0, 0, 0,  255, 0, 255, 0] 36,
               Write 3 [8, 0, 2, 0,  1, 0, 64, 0] 8],
            err = [], slept = 2\<rparr>
         \<and> graphics_context_id s' = 0x400000 \<and> window_id s' = 0x400001)"
proof -
  have l: "16 \<le> length (replicate 20 (7 :: u8) @ example_cookie)"
    by simp
  note t = end_to_end [OF example_handshake_accepted l example_success_reply
      example_requests_accepted example_body_fields, of 2]
  have m4: "unat (4 :: u16) mod 4 = 0"
    by simp
  from t [THEN conjunct2] m4
  have wire: "wire_screens_offset example_body = Some (32 + unat (4 :: u16))"
    by (rule mp)
  from t [THEN conjunct1]
  obtain s' where m: "main example_env world_empty 2 =
     Idling s'
       (world_empty\<lparr>trace := trace world_empty @
          [Write (socket_ret example_env) [108, 0, 11, 0, 0, 0, 18, 0, 16, 0, 0, 0] 12,
           Write (socket_ret example_env) (map of_char ''MIT-MAGIC-COOKIE-1'' @ [0, 0]) 20,
           Write (socket_ret example_env)
             (drop (length (take 4096 (replicate 20 7 @ example_cookie)) - 16)
                (take 4096 (replicate 20 7 @ example_cookie))) 16,
           Recvfrom (socket_ret example_env) 8 8 example_header,
           Recvfrom (socket_ret example_env)
             (unat (len (connection_reply_header_of example_header)) * 4)
             (int (unat (len (connection_reply_header_of example_header)) * 4)) example_body,
           Write (socket_ret example_env)
             (concat (map le32 [0x00050010, 0x400000, 100, 0x10000, 0])) 20,
           Write (socket_ret example_env)
             (concat (map le32 [0x00090001, 0x400000 + 1, 100, 0, 0x00F00140, 0, 200, 2,
                                0xFF00FF])) 36,
           Write (socket_ret example_env) (concat (map le32 [0x00020008, 0x400000 + 1])) 8],
          slept := slept world_empty + 2\<rparr>)"
    and g: "graphics_context_id s' = 0x400000" and wi: "window_id s' = 0x400000 + 1"
    by blast
  have "main example_env world_empty 2 =
         Idling s'
           \<lparr>trace =
              [Write 3 [108, 0, 11, 0, 0, 0, 18, 0, 16, 0, 0, 0] 12,
               Write 3 [77, 73, 84, 45, 77, 65, 71, 73, 67, 45, 67, 79, 79, 75, 73, 69, 45,
                        49, 0, 0] 20,
               Write 3 [1, 2, 3, 4, 5, 6, 7, 8, 9, 10, 11, 12, 13, 14, 15, 16] 16,
               Recvfrom 3 8 8 example_header,
               Recvfrom 3 76 76 example_body,
               Write 3 [16, 0, 5, 0,  0, 0, 64, 0,  100, 0, 0, 0,  0, 0, 1, 0,  0, 0, 0, 0] 20,
               Write 3 [1, 0, 9, 0,  1, 0, 64, 0,  100, 0, 0, 0,  0, 0, 0, 0,  64, 1, 240, 0,
                        0, 0, 0, 0,  200, 0, 0, 0,  2, 0, 0, 0,  255, 0, 255, 0] 36,
               Write 3 [8, 0, 2, 0,  1, 0, 64, 0] 8],
            err = [], slept = 2\<rparr>"
    unfolding m
    by (simp add: example_header_fields example_env_def world_empty_def example_cookie_def
        le32_def)
  with g wi have "\<exists>s'. main example_env world_empty 2 =
         Idling s'
           \<lparr>trace =
              [Write 3 [108, 0, 11, 0, 0, 0, 18, 0, 16, 0, 0, 0] 12,
               Write 3 [77, 73, 84, 45, 77, 65, 71, 73, 67, 45, 67, 79, 79, 75, 73, 69, 45,
                        49, 0, 0] 20,
               Write 3 [1, 2, 3, 4, 5, 6, 7, 8, 9, 10, 11, 12, 13, 14, 15, 16] 16,
               Recvfrom 3 8 8 example_header,
               Recvfrom 3 76 76 example_body,
               Write 3 [16, 0, 5, 0,  0, 0, 64, 0,  100, 0, 0, 0,  0, 0, 1, 0,  0, 0, 0, 0] 20,
               Write 3 [1, 0, 9, 0,  1, 0, 64, 0,  100, 0, 0, 0,  0, 0, 0, 0,  64, 1, 240, 0,
                        0, 0, 0, 0,  200, 0, 0, 0,  2, 0, 0, 0,  255, 0, 255, 0] 36,
               Write 3 [8, 0, 2, 0,  1, 0, 64, 0] 8],
            err = [], slept = 2\<rparr>
         \<and> graphics_context_id s' = 0x400000 \<and> window_id s' = 0x400001"
    by (intro exI [of _ s']) simp
  with example_handshake_accepted l example_success_reply example_requests_accepted
    example_body_fields m4 wire
  show ?thesis
    by (intro conjI)
qed

text \<open>
  Claim C1 as stated fails. A reply with the five-byte vendor string \<^verbatim>\<open>Xorg!\<close> has
  its one screen (root window 100, root visual 200) at offset 40, after three bytes of
  padding; the client looks at offset 37, so its create-GC request names the drawable
  \<open>0x64000000\<close> and its create-window request the parent \<open>0x64000000\<close> and the
  visual \<open>0xC8000100\<close>. And with \<^verbatim>\<open>id_base\<close> \<open>0xFFFFFFFF\<close> the window identifier
  is 0, which is \<open>id_base + 1\<close> only modulo \<open>2 ^ 32\<close>.
\<close>

theorem end_to_end_padded_vendor:
  "handshake_accepted padded_env world_empty (replicate 20 7 @ example_cookie)
   \<and> success_reply padded_env world_empty padded_header padded_body
   \<and> requests_accepted padded_env world_empty
   \<and> vendor_len padded_body = Some 5 \<and> num_pixmap_formats padded_body = Some 0
   \<and> num_screens padded_body = Some 1
   \<and> wire_screens_offset padded_body = Some 40
   \<and> root_id padded_body 40 = Some 100 \<and> root_visual_id padded_body 40 = Some 200
   \<and> trace (world_of (main padded_env world_empty 2)) ! 5 =
       Write 3 (concat (map le32 [0x00050010, 0x400000, 0x64000000, 0x10000, 0])) 20
   \<and> trace (world_of (main padded_env world_empty 2)) ! 6 =
       Write 3 (concat (map le32 [0x00090001, 0x400001, 0x64000000, 0, 0x00F00140, 0,
                                  0xC8000100, 2, 0xFF00FF])) 36
   \<and> (0x64000000 :: u32) \<noteq> 100 \<and> (0xC8000100 :: u32) \<noteq> 200
   \<and> id_base wrap_body = Some 0xFFFFFFFF
   \<and> unat (0xFFFFFFFF :: u32) + 1 = 4294967296
   \<and> trace (world_of (main wrap_env world_empty 2)) ! 6 =
       Write 3 (concat (map le32 [0x00090001, 0, 100, 0, 0x00F00140, 0, 200, 2, 0xFF00FF])) 36
   \<and> trace (world_of (main wrap_env world_empty 2)) ! 7 =
       Write 3 (concat (map le32 [0x00020008, 0])) 8"
proof -
  have l: "16 \<le> length (replicate 20 (7 :: u8) @ example_cookie)"
    by simp
  note p = main_run [OF padded_handshake_accepted l padded_success_reply
      padded_requests_accepted padded_body_fields(1,2,4,7,8), of 2]
  have p5: "trace (world_of (main padded_env world_empty 2)) ! 5 =
       Write 3 (concat (map le32 [0x00050010, 0x400000, 0x64000000, 0x10000, 0])) 20"
    unfolding p by (simp add: world_empty_def padded_env_def example_env_def)
  have p6: "trace (world_of (main padded_env world_empty 2)) ! 6 =
       Write 3 (concat (map le32 [0x00090001, 0x400001, 0x64000000, 0, 0x00F00140, 0,
                                  0xC8000100, 2, 0xFF00FF])) 36"
    unfolding p by (simp add: world_empty_def padded_env_def example_env_def)
  have z: "(4294967296 :: u32) = 0"
    by simp
  note q = main_run [OF wrap_handshake_accepted l wrap_success_reply
      wrap_requests_accepted wrap_body_fields(1,2,4,5,6), of 2]
  have q6: "trace (world_of (main wrap_env world_empty 2)) ! 6 =
       Write 3 (concat (map le32 [0x00090001, 0, 100, 0, 0x00F00140, 0, 200, 2, 0xFF00FF])) 36"
    unfolding q by (simp add: world_empty_def wrap_env_def example_env_def z)
  have q7: "trace (world_of (main wrap_env world_empty 2)) ! 7 =
       Write 3 (concat (map le32 [0x00020008, 0])) 8"
    unfolding q by (simp add: world_empty_def wrap_env_def example_env_def z)
  have n: "(0x64000000 :: u32) \<noteq> 100" "(0xC8000100 :: u32) \<noteq> 200"
    "unat (0xFFFFFFFF :: u32) + 1 = 4294967296"
    by simp_all
  from padded_handshake_accepted padded_success_reply padded_requests_accepted
    padded_body_fields(1,2,3) padded_wire_offset padded_body_fields(5,6) p5 p6 n(1,2)
    wrap_body_fields(4) n(3) q6 q7
  show ?thesis
    by (intro conjI)
qed

end
